theory Spec2Isabelle
  imports Complex_Main
begin

section \<open>Data model\<close>

text \<open>
  The worker scripts keep every number as a two-character string (\<open>"00"\<close> .. \<open>"99"\<close>).
  A prepared day is the object pushed by \<open>DataPreparer.prepareHistoricalData\<close>; the
  fields read by the functions verified below are kept (\<open>date\<close> as the timestamp of the
  \<open>Date\<close> object), the other derived arrays of the object are not needed here.
\<close>

record DailyDrawRecord =
  date :: int
  dayOfWeek :: nat
  numbers :: "string list"
  uniqueNumbers :: "string list"

text \<open>
  Errors thrown by the scripts. \<open>InsufficientData n\<close> is the \<open>Error\<close> that the text of
  \<open>predictNextDay\<close> throws for a short history, whose message names the minimum \<open>n\<close>;
  \<open>InvalidArgument\<close> is the \<open>Error\<close> of the \<open>DataAnalyzer\<close> constructor; \<open>TypeError\<close>
  and \<open>ReferenceError\<close> are the language's own exceptions (calling \<open>undefined\<close>,
  reading a property of \<open>undefined\<close>, reading an undeclared identifier);
  \<open>StrategyError\<close> stands for any other exception.
\<close>

datatype error = InsufficientData nat | InvalidArgument | TypeError | ReferenceError | StrategyError

section \<open>worker-utils.js\<close>

definition NUM_PREDICTED_LOTTO_NUMBERS :: nat where
  "NUM_PREDICTED_LOTTO_NUMBERS = 16"

definition MIN_HISTORY_FOR_ANALYSIS :: nat where
  "MIN_HISTORY_FOR_ANALYSIS = 200"

definition BACKTEST_WINDOW_SIZE :: nat where
  "BACKTEST_WINDOW_SIZE = 150"

definition DIGITS :: string where
  "DIGITS = ''0123456789''"

definition digit_char :: "nat \<Rightarrow> char" where
  "digit_char d = DIGITS ! d"

text \<open>\<open>String(i)\<close> for a non-negative integer: its decimal digits.\<close>

fun String_of_nat :: "nat \<Rightarrow> string" where
  "String_of_nat n =
     (if n < 10 then [digit_char n] else String_of_nat (n div 10) @ [digit_char (n mod 10)])"

declare String_of_nat.simps [simp del]

definition padStart :: "nat \<Rightarrow> char \<Rightarrow> string \<Rightarrow> string" where
  "padStart targetLength c s = replicate (targetLength - length s) c @ s"

text \<open>\<open>Array.from({ length: 100 }, (_, i) => String(i).padStart(2, '0'))\<close>\<close>

definition ALL_LOTTO_NUMBERS :: "string list" where
  "ALL_LOTTO_NUMBERS = map (\<lambda>i. padStart 2 (CHR ''0'') (String_of_nat i)) [0..<100]"

definition generateAllLottoNumbers :: "string list" where
  "generateAllLottoNumbers = ALL_LOTTO_NUMBERS"

text \<open>
  \<open>reverseNumber: (numStr) => (numStr.length === 2 && numStr[0] !== numStr[1]) ?
  (numStr[1] + numStr[0]) : numStr\<close>
\<close>

definition reverseNumber :: "string \<Rightarrow> string" where
  "reverseNumber numStr =
     (if length numStr = 2 \<and> numStr ! 0 \<noteq> numStr ! 1 then [numStr ! 1, numStr ! 0] else numStr)"

definition isKep :: "string \<Rightarrow> bool" where
  "isKep numStr \<longleftrightarrow> length numStr = 2 \<and> numStr ! 0 = numStr ! 1"

definition BONG_SO_MAP :: "(char \<times> char) list" where
  "BONG_SO_MAP =
     [(CHR ''0'', CHR ''5''), (CHR ''1'', CHR ''6''), (CHR ''2'', CHR ''7''),
      (CHR ''3'', CHR ''8''), (CHR ''4'', CHR ''9''), (CHR ''5'', CHR ''0''),
      (CHR ''6'', CHR ''1''), (CHR ''7'', CHR ''2''), (CHR ''8'', CHR ''3''),
      (CHR ''9'', CHR ''4'')]"

text \<open>
  \<open>getBongSo(digit)\<close> is \<open>this.BONG_SO_MAP[digit] || null\<close>: every value of the table
  is a non-empty string, so \<open>null\<close> (here \<open>None\<close>) is returned exactly for a missing key.
\<close>

definition getBongSo :: "char \<Rightarrow> char option" where
  "getBongSo digit = map_of BONG_SO_MAP digit"

definition getLotoBong :: "string \<Rightarrow> string option" where
  "getLotoBong numStr =
     (if length numStr \<noteq> 2 then None
      else (case getBongSo (numStr ! 0) of
              None \<Rightarrow> None
            | Some bongHead \<Rightarrow>
                (case getBongSo (numStr ! 1) of
                   None \<Rightarrow> None
                 | Some bongTail \<Rightarrow> Some [bongHead, bongTail])))"

subsection \<open>Statistical utilities\<close>

text \<open>
  JavaScript numbers are modelled as real numbers: rounding of doubles is not represented.
\<close>

definition sumArray :: "real list \<Rightarrow> real" where
  "sumArray arr = fold (\<lambda>val acc. acc + val) arr 0"

text \<open>
  \<open>averageArray: (arr) => arr.length === 0 ? 0 : this.sumArray(arr) / arr.length\<close> is an
  arrow function inside the object literal passed to \<open>Object.assign\<close>: its \<open>this\<close> is
  the \<open>this\<close> of the enclosing script (the worker's global scope), not
  \<open>WorkerUtils\<close>, and the global scope has no \<open>sumArray\<close>. For a non-empty array the
  call \<open>this.sumArray(arr)\<close> therefore throws a TypeError; only the empty array has an
  average. (\<open>standardDeviation\<close> reaches the function through
  \<open>self.WorkerUtils.averageArray\<close>, which does not change the \<open>this\<close> of an arrow
  function.)
\<close>

definition averageArray :: "real list \<Rightarrow> error + real" where
  "averageArray arr = (if length arr = 0 then Inr 0 else Inl TypeError)"

definition standardDeviation :: "real list \<Rightarrow> error + real" where
  "standardDeviation arr =
     (if length arr < 2 then Inr 0
      else (case averageArray arr of
              Inl e \<Rightarrow> Inl e
            | Inr mean \<Rightarrow>
                Inr (sqrt (fold (\<lambda>val sum. sum + (val - mean) ^ 2) arr 0 / (real (length arr) - 1)))))"

section \<open>data-preparer.js\<close>

text \<open>
  A JavaScript \<open>Set\<close> keeps its members in insertion order; \<open>Set_add\<close> is \<open>.add\<close> and
  \<open>Set_of\<close> is \<open>[...new Set(xs)]\<close>.
\<close>

definition Set_add :: "'a \<Rightarrow> 'a list \<Rightarrow> 'a list" where
  "Set_add x s = (if x \<in> set s then s else s @ [x])"

definition Set_of :: "'a list \<Rightarrow> 'a list" where
  "Set_of xs = fold Set_add xs []"

text \<open>
  A prepared history: every day's \<open>uniqueNumbers\<close> is \<open>[...new Set(numbers)]\<close>, as
  \<open>prepareHistoricalData\<close> builds it, and every landed number is one of the two-digit
  strings (the parser and \<open>organizeData\<close> let nothing else through).
\<close>

definition prepared :: "DailyDrawRecord list \<Rightarrow> bool" where
  "prepared h \<longleftrightarrow>
     (\<forall>d \<in> set h. uniqueNumbers d = Set_of (numbers d) \<and> set (numbers d) \<subseteq> set ALL_LOTTO_NUMBERS)"

section \<open>data-analyzer.js\<close>

record DataAnalyzer =
  historyData :: "DailyDrawRecord list"
  allLottoNumbers :: "string list"
  currentDayIndex :: nat

text \<open>
  The constructor; \<open>None\<close> is an absent (\<open>null\<close>/\<open>undefined\<close>) argument. It throws on
  an absent or empty history.
\<close>

definition new_DataAnalyzer :: "DailyDrawRecord list option \<Rightarrow> error + DataAnalyzer" where
  "new_DataAnalyzer arg =
     (case arg of
        None \<Rightarrow> Inl InvalidArgument
      | Some h \<Rightarrow>
          if length h = 0 then Inl InvalidArgument
          else Inr \<lparr>historyData = h, allLottoNumbers = generateAllLottoNumbers,
                    currentDayIndex = length h\<rparr>)"

subsection \<open>getGanStatus\<close>

record GanEntry =
  daysGone :: int
  lastSeenDate :: "int option"
  lastSeenIndex :: int

text \<open>
  The first loop of \<open>getGanStatus\<close>: \<open>lastAppearanceMap.set(num, index)\<close> for every
  number of every day, in chronological order.
\<close>

definition lastAppearanceMap :: "DailyDrawRecord list \<Rightarrow> (string \<rightharpoonup> nat)" where
  "lastAppearanceMap h =
     fold (\<lambda>(index, dayInfo) m. fold (\<lambda>num m'. m'(num \<mapsto> index)) (uniqueNumbers dayInfo) m)
       (enumerate 0 h) Map.empty"

text \<open>
  The second loop fills \<open>ganMap\<close> for the members of \<open>allLottoNumbers\<close>; the result is
  read with \<open>.get\<close>, so it is modelled as the partial function of its keys.
  \<open>this.historyData[lastSeenIndex]\<close> is always in range: the index was stored by the
  first loop.
\<close>

definition getGanStatus :: "DataAnalyzer \<Rightarrow> (string \<rightharpoonup> GanEntry)" where
  "getGanStatus an = (\<lambda>num.
     if num \<in> set (allLottoNumbers an) then
       (case lastAppearanceMap (historyData an) num of
          None \<Rightarrow>
            Some \<lparr>daysGone = int (currentDayIndex an), lastSeenDate = None, lastSeenIndex = - 1\<rparr>
        | Some i \<Rightarrow>
            Some \<lparr>daysGone = int (currentDayIndex an) - int i - 1,
                  lastSeenDate = Some (date (historyData an ! i)),
                  lastSeenIndex = int i\<rparr>)
     else None)"

subsection \<open>getConsecutiveAppearance\<close>

text \<open>
  The \<open>for\<close> loop of \<open>getConsecutiveAppearance\<close> for one number: \<open>i\<close> runs from 1
  while \<open>i <= maxConsecutiveDays && historyData.length - i >= 0\<close>, and the loop breaks
  at the first day that does not include the number.
\<close>

function consecutive_loop :: "DailyDrawRecord list \<Rightarrow> nat \<Rightarrow> string \<Rightarrow> nat \<Rightarrow> nat \<Rightarrow> nat" where
  "consecutive_loop h maxConsecutiveDays num i currentConsecutive =
     (if i \<le> maxConsecutiveDays \<and> 0 \<le> int (length h) - int i then
        (if num \<in> set (uniqueNumbers (h ! (length h - i)))
         then consecutive_loop h maxConsecutiveDays num (Suc i) (Suc currentConsecutive)
         else currentConsecutive)
      else currentConsecutive)"
  by pat_completeness auto
termination
  by (relation "measure (\<lambda>(h, m, num, i, c). Suc m - i)") auto

declare consecutive_loop.simps [simp del]

text \<open>
  The map starts at 0 for every member of \<open>allLottoNumbers\<close>; it is returned untouched
  when the history is shorter than \<open>maxConsecutiveDays\<close>.
\<close>

definition getConsecutiveAppearance :: "DataAnalyzer \<Rightarrow> nat \<Rightarrow> (string \<rightharpoonup> nat)" where
  "getConsecutiveAppearance an maxConsecutiveDays = (\<lambda>num.
     if num \<in> set (allLottoNumbers an) then
       (if length (historyData an) < maxConsecutiveDays then Some 0
        else (let currentConsecutive = consecutive_loop (historyData an) maxConsecutiveDays num 1 0
              in if 0 < currentConsecutive then Some currentConsecutive else Some 0))
     else None)"

text \<open>
  The streak as the specification words it: of the most recent \<open>N\<close> records, walking
  backward from the latest, the number of records containing the number before the first
  miss.
\<close>

definition recent_streak :: "DailyDrawRecord list \<Rightarrow> nat \<Rightarrow> string \<Rightarrow> nat" where
  "recent_streak h N num = length (takeWhile (\<lambda>d. num \<in> set (uniqueNumbers d)) (take N (rev h)))"

subsection \<open>getConsistentPeriodBridge\<close>

text \<open>
  \<open>_getHistorySlice(daysLookback)\<close>: the last \<open>daysLookback\<close> records, the whole
  history when the lookback is larger, nothing when it is 0.
\<close>

definition getHistorySlice :: "DataAnalyzer \<Rightarrow> nat \<Rightarrow> DailyDrawRecord list" where
  "getHistorySlice an daysLookback =
     (if daysLookback = 0 then []
      else drop (nat (max 0 (int (length (historyData an)) - int daysLookback))) (historyData an))"

text \<open>
  \<open>numberAppearanceIndices.get(num).push(startIndex + relativeIndex)\<close> for the numbers
  of one day, then for the days of the slice. The map has the members of
  \<open>allLottoNumbers\<close> as keys; a number outside them makes \<open>.get(num)\<close> undefined and
  the \<open>push\<close> a TypeError.
\<close>

fun push_index :: "(string \<rightharpoonup> nat list) \<Rightarrow> nat \<Rightarrow> string list \<Rightarrow> error + (string \<rightharpoonup> nat list)" where
  "push_index m idx [] = Inr m"
| "push_index m idx (num # rest) =
     (case m num of
        None \<Rightarrow> Inl TypeError
      | Some indices \<Rightarrow> push_index (m(num \<mapsto> indices @ [idx])) idx rest)"

fun collect_indices ::
  "(string \<rightharpoonup> nat list) \<Rightarrow> nat \<Rightarrow> DailyDrawRecord list \<Rightarrow> error + (string \<rightharpoonup> nat list)" where
  "collect_indices m idx [] = Inr m"
| "collect_indices m idx (dayInfo # rest) =
     (case push_index m idx (uniqueNumbers dayInfo) of
        Inl e \<Rightarrow> Inl e
      | Inr m' \<Rightarrow> collect_indices m' (Suc idx) rest)"

text \<open>
  The three nested loops. \<open>check_run\<close> is the \<open>j\<close> loop (\<open>isConsistent\<close>, with its
  break at the first gap different from \<open>period\<close>), \<open>scan_starts\<close> the \<open>i\<close> loop
  (it stops when a run projects onto \<open>currentDayIndex\<close>; \<open>lastIndexInPattern\<close> is
  undefined, and the comparison false, when its index is out of range), \<open>scan_periods\<close>
  the \<open>period\<close> loop: its result is whether the number was added to the set.
\<close>

function check_run :: "nat list \<Rightarrow> nat \<Rightarrow> nat \<Rightarrow> nat \<Rightarrow> nat \<Rightarrow> bool" where
  "check_run indices i period minOccurrences j =
     (if int j < int minOccurrences - 1 then
        (if int (indices ! (i + j + 1)) - int (indices ! (i + j)) \<noteq> int period then False
         else check_run indices i period minOccurrences (Suc j))
      else True)"
  by pat_completeness auto
termination
  by (relation "measure (\<lambda>(indices, i, period, m, j). m - j)") auto

declare check_run.simps [simp del]

function scan_starts :: "nat list \<Rightarrow> nat \<Rightarrow> nat \<Rightarrow> nat \<Rightarrow> nat \<Rightarrow> bool" where
  "scan_starts indices period minOccurrences cur i =
     (if int i \<le> int (length indices) - int minOccurrences then
        (if check_run indices i period minOccurrences 0
            \<and> 0 \<le> int i + int minOccurrences - 1
            \<and> int i + int minOccurrences - 1 < int (length indices)
            \<and> indices ! (i + minOccurrences - 1) + period = cur
         then True
         else scan_starts indices period minOccurrences cur (Suc i))
      else False)"
  by pat_completeness auto
termination
  by (relation "measure (\<lambda>(indices, period, m, cur, i). Suc (length indices) - i)") auto

declare scan_starts.simps [simp del]

function scan_periods :: "nat list \<Rightarrow> nat \<Rightarrow> nat \<Rightarrow> nat \<Rightarrow> nat \<Rightarrow> bool" where
  "scan_periods indices minOccurrences maxPeriod cur period =
     (if period \<le> maxPeriod then
        (if scan_starts indices period minOccurrences cur 0 then True
         else scan_periods indices minOccurrences maxPeriod cur (Suc period))
      else False)"
  by pat_completeness auto
termination
  by (relation "measure (\<lambda>(indices, m, maxPeriod, cur, period). Suc maxPeriod - period)") auto

declare scan_periods.simps [simp del]

definition getConsistentPeriodBridge ::
  "DataAnalyzer \<Rightarrow> nat \<Rightarrow> nat \<Rightarrow> nat \<Rightarrow> error + string set" where
  "getConsistentPeriodBridge an minOccurrences maxPeriod daysLookback =
     (let historySlice = getHistorySlice an daysLookback;
          startIndex = length (historyData an) - length historySlice
      in case collect_indices (\<lambda>num. if num \<in> set (allLottoNumbers an) then Some [] else None)
                startIndex historySlice of
           Inl e \<Rightarrow> Inl e
         | Inr numberAppearanceIndices \<Rightarrow>
             Inr (set (filter (\<lambda>num.
                    case numberAppearanceIndices num of
                      None \<Rightarrow> False
                    | Some indices \<Rightarrow>
                        minOccurrences \<le> length indices
                        \<and> scan_periods indices minOccurrences maxPeriod (currentDayIndex an) 1)
                  (allLottoNumbers an))))"

text \<open>
  The specification's wording of the same query: the appearance indices of a number within
  the window, and the existence of a period and of a run of \<open>minOccurrences\<close> consecutive
  appearance indices, spaced exactly the period apart, whose last index plus the period is
  the index of the next day.
\<close>

definition window_indices :: "DailyDrawRecord list \<Rightarrow> nat \<Rightarrow> string \<Rightarrow> nat list" where
  "window_indices h daysLookback num =
     filter (\<lambda>k. num \<in> set (uniqueNumbers (h ! k)))
       [(if daysLookback = 0 then length h else length h - daysLookback) ..< length h]"

definition active_bridge :: "DailyDrawRecord list \<Rightarrow> nat \<Rightarrow> nat \<Rightarrow> nat \<Rightarrow> string \<Rightarrow> bool" where
  "active_bridge h minOccurrences maxPeriod daysLookback num \<longleftrightarrow>
     (let idx = window_indices h daysLookback num in
      minOccurrences \<le> length idx
      \<and> (\<exists>period \<in> {1..maxPeriod}. \<exists>i \<in> {0..length idx - minOccurrences}.
           (\<forall>j \<in> {0..<minOccurrences - 1}. idx ! (i + j + 1) = idx ! (i + j) + period)
           \<and> idx ! (i + minOccurrences - 1) + period = length h))"

subsection \<open>getNumberCycleAnalysis\<close>

record CycleInfo =
  appearances :: "nat list"
  avgCycle :: real
  cycle_lastSeenIndex :: int
  daysSinceLast :: int
  cycles :: "real list"
  nextDueApprox :: real
  consistencyScore :: real
  cycleVariance :: real

text \<open>
  The entry every member of \<open>allLottoNumbers\<close> starts with (the field \<open>lastSeenIndex\<close>
  of the source is \<open>cycle_lastSeenIndex\<close> here).
\<close>

definition initial_CycleInfo :: CycleInfo where
  "initial_CycleInfo =
     \<lparr>appearances = [], avgCycle = 0, cycle_lastSeenIndex = - 1, daysSinceLast = - 1,
      cycles = [], nextDueApprox = - 1, consistencyScore = 0, cycleVariance = 0\<rparr>"

text \<open>
  \<open>cycleInfo.get(num).appearances.push(index)\<close> over the numbers of a day and over the
  days; \<open>.get\<close> is undefined, and the access a TypeError, for a number that is not a key.
\<close>

fun push_appearance ::
  "(string \<rightharpoonup> CycleInfo) \<Rightarrow> nat \<Rightarrow> string list \<Rightarrow> error + (string \<rightharpoonup> CycleInfo)" where
  "push_appearance m index [] = Inr m"
| "push_appearance m index (num # rest) =
     (case m num of
        None \<Rightarrow> Inl TypeError
      | Some info \<Rightarrow>
          push_appearance (m(num \<mapsto> info\<lparr>appearances := appearances info @ [index]\<rparr>)) index rest)"

fun collect_appearances ::
  "(string \<rightharpoonup> CycleInfo) \<Rightarrow> nat \<Rightarrow> DailyDrawRecord list \<Rightarrow> error + (string \<rightharpoonup> CycleInfo)" where
  "collect_appearances m index [] = Inr m"
| "collect_appearances m index (dayInfo # rest) =
     (case push_appearance m index (uniqueNumbers dayInfo) of
        Inl e \<Rightarrow> Inl e
      | Inr m' \<Rightarrow> collect_appearances m' (Suc index) rest)"

text \<open>
  The body of \<open>cycleInfo.forEach\<close> for one entry: with at least two appearances the gaps
  are pushed to \<open>cycles\<close> and the statistics computed (a standard deviation is never
  NaN here, so \<open>isNaN\<close> has no case); then \<open>lastSeenIndex\<close> and \<open>daysSinceLast\<close>.
  An exception of \<open>averageArray\<close> or \<open>standardDeviation\<close> leaves the callback and the
  whole of \<open>getNumberCycleAnalysis\<close>.
\<close>

definition cycle_gaps :: "nat list \<Rightarrow> real list" where
  "cycle_gaps apps = map (\<lambda>i. real (apps ! i) - real (apps ! (i - 1))) [1..<length apps]"

definition cycle_entry :: "nat \<Rightarrow> CycleInfo \<Rightarrow> error + CycleInfo" where
  "cycle_entry curIdx info =
     (case (if 2 \<le> length (appearances info) then
              (let cyc = cycles info @ cycle_gaps (appearances info) in
               case averageArray cyc of
                 Inl e \<Rightarrow> Inl e
               | Inr avg \<Rightarrow>
                   (case standardDeviation cyc of
                      Inl e \<Rightarrow> Inl e
                    | Inr sd \<Rightarrow>
                        Inr (info\<lparr>cycles := cyc, avgCycle := avg, cycleVariance := sd,
                                  consistencyScore := (if sd = 0 then 1 else 1 / (1 + sd)),
                                  nextDueApprox := real (last (appearances info)) + avg\<rparr>)))
            else Inr info) of
        Inl e \<Rightarrow> Inl e
      | Inr info1 \<Rightarrow>
          (let info2 = (if 0 < length (appearances info1)
                        then info1\<lparr>cycle_lastSeenIndex := int (last (appearances info1))\<rparr>
                        else info1)
           in Inr (if cycle_lastSeenIndex info2 \<noteq> - 1
                   then info2\<lparr>daysSinceLast := int curIdx - cycle_lastSeenIndex info2 - 1\<rparr>
                   else info2\<lparr>daysSinceLast := int curIdx\<rparr>)))"

fun cycle_forEach ::
  "nat \<Rightarrow> (string \<rightharpoonup> CycleInfo) \<Rightarrow> string list \<Rightarrow> error + (string \<rightharpoonup> CycleInfo)" where
  "cycle_forEach curIdx m [] = Inr m"
| "cycle_forEach curIdx m (num # rest) =
     (case m num of
        None \<Rightarrow> cycle_forEach curIdx m rest
      | Some info \<Rightarrow>
          (case cycle_entry curIdx info of
             Inl e \<Rightarrow> Inl e
           | Inr info' \<Rightarrow> cycle_forEach curIdx (m(num \<mapsto> info')) rest))"

definition getNumberCycleAnalysis :: "DataAnalyzer \<Rightarrow> error + (string \<rightharpoonup> CycleInfo)" where
  "getNumberCycleAnalysis an =
     (case collect_appearances
             (\<lambda>num. if num \<in> set (allLottoNumbers an) then Some initial_CycleInfo else None)
             0 (historyData an) of
        Inl e \<Rightarrow> Inl e
      | Inr cycleInfo \<Rightarrow> cycle_forEach (length (historyData an)) cycleInfo (allLottoNumbers an))"

text \<open>
  What a caller reads as \<open>getNumberCycleAnalysis().get(num).consistencyScore\<close>, and the
  number of days of the history on which a number appeared.
\<close>

definition reported_consistencyScore :: "DataAnalyzer \<Rightarrow> string \<Rightarrow> error + real option" where
  "reported_consistencyScore an num =
     (case getNumberCycleAnalysis an of
        Inl e \<Rightarrow> Inl e
      | Inr cycleInfo \<Rightarrow> Inr (map_option consistencyScore (cycleInfo num)))"

definition appearance_count :: "DailyDrawRecord list \<Rightarrow> string \<Rightarrow> nat" where
  "appearance_count h num = length (filter (\<lambda>d. num \<in> set (uniqueNumbers d)) h)"

section \<open>prediction-engine.js\<close>

text \<open>
  The worker loads its scripts with \<open>importScripts\<close>, and a script is parsed as a whole
  before its first statement runs. The text of \<open>prediction-engine.js\<close> is not a program:

  \<^item> it begins with a copy of its own first lines, in which
    \<open>self.PredictionEngine.predictNextDay = function(historyData) {\<close> (line 39) is opened
    and never closed before the text starts again at \<open>self.PredictionEngine = ...\<close>;

  \<^item> in \<open>_selectAndDiversifyNumbers\<close>, the declaration of \<open>tailCounts\<close> (line 248) closes
    the bracket of its array literal with a brace.

  Loading the script therefore throws a SyntaxError, none of its assignments is executed,
  and \<open>self.PredictionEngine\<close> stays undefined: the functions written in the text,
  \<open>predictNextDay\<close>, \<open>_applyGlobalScoreAdjustments\<close> and \<open>_selectAndDiversifyNumbers\<close>,
  do not exist in the worker. They are not modelled as functions here. The model has the
  text of line 248, the bracket discipline of the language, and what a caller of
  \<open>self.PredictionEngine.predictNextDay\<close> gets.
\<close>

text \<open>
  Line 248 of the script, as it is written.
\<close>

definition line_248 :: string where
  "line_248 =
     ''    const tailCounts = new Map(Array.from({ length: 10 }, (_, i) => [String(i), 0}));''"

text \<open>
  Brackets: a closing bracket must be the one that closes the bracket opened last.
  \<open>scan_brackets pending text\<close> reads \<open>text\<close> with the closing brackets still expected in
  \<open>pending\<close> (innermost first) and returns those expected at its end, or \<open>None\<close> at a
  closing bracket that is not the expected one. (Line 248 has no comment, string or
  regular expression, in which brackets would not count.)
\<close>

definition closing :: "char \<Rightarrow> char option" where
  "closing c = map_of [(CHR ''('', CHR '')''), (CHR ''['', CHR '']''), (CHR ''{'', CHR ''}'')] c"

definition is_closing :: "char \<Rightarrow> bool" where
  "is_closing c = (c \<in> set [CHR '')'', CHR '']'', CHR ''}''])"

fun scan_brackets :: "char list \<Rightarrow> string \<Rightarrow> char list option" where
  "scan_brackets pending [] = Some pending"
| "scan_brackets pending (c # cs) =
     (case closing c of
        Some d \<Rightarrow> scan_brackets (d # pending) cs
      | None \<Rightarrow>
          if is_closing c
          then (case pending of
                  [] \<Rightarrow> None
                | d # rest \<Rightarrow> if c = d then scan_brackets rest cs else None)
          else scan_brackets pending cs)"

definition well_bracketed :: "string \<Rightarrow> bool" where
  "well_bracketed src = (scan_brackets [] src = Some [])"

text \<open>
  A strategy module (its name, its weight and its \<open>predict\<close>, which returns a map from
  numbers to scores or throws) and the engine object: the array
  \<open>PredictionEngine.strategies\<close>, whose entries are the globals \<open>self.StrategyFrequency\<close>,
  ... (\<open>None\<close> for a global that is undefined), and \<open>PredictionEngine.predictNextDay\<close>,
  which returns the predicted numbers or throws. A score is a number or NaN (\<open>None\<close>).
\<close>

type_synonym jsnum = "real option"

type_synonym ScoreMap = "(string \<times> jsnum) list"

record Strategy =
  name :: string
  weight :: real
  predict :: "DataAnalyzer \<Rightarrow> error + ScoreMap"

record Engine =
  strategies :: "Strategy option list"
  predictNextDay :: "DailyDrawRecord list option \<Rightarrow> error + string list"

text \<open>
  \<open>importScripts('prediction-engine.js')\<close>, for the global \<open>self.PredictionEngine\<close>:
  \<open>before\<close> and \<open>after\<close> are the text of the script around line 248, and \<open>built\<close> is
  the object that the statements of a script with this text would assign. The worker has
  the object only if the text is well-bracketed, which a text that contains line 248 never
  is (\<open>importScripts_prediction_engine_undefined\<close> below).
\<close>

definition importScripts_prediction_engine :: "string \<Rightarrow> string \<Rightarrow> Engine \<Rightarrow> Engine option" where
  "importScripts_prediction_engine before after built =
     (if well_bracketed (before @ line_248 @ after) then Some built else None)"

text \<open>
  The call \<open>self.PredictionEngine.predictNextDay(...)\<close> of \<open>worker.js\<close> and
  \<open>backtester.js\<close>: reading a property of \<open>undefined\<close> throws a TypeError.
\<close>

definition call_predictNextDay ::
  "Engine option \<Rightarrow> DailyDrawRecord list option \<Rightarrow> error + string list" where
  "call_predictNextDay PredictionEngine historyArg =
     (case PredictionEngine of
        None \<Rightarrow> Inl TypeError
      | Some engine \<Rightarrow> predictNextDay engine historyArg)"

section \<open>backtester.js\<close>

text \<open>
  The engine is the global \<open>self.PredictionEngine\<close>, a parameter of \<open>runBacktest\<close> here:
  the backtester reads its \<open>strategies\<close> once, before the loop, and calls its
  \<open>predictNextDay\<close> on a training slice for every tested day.
\<close>

definition HIGH_ACCURACY_THRESHOLD :: nat where
  "HIGH_ACCURACY_THRESHOLD = 10"

definition PROFIT_THRESHOLD_DEFAULT :: nat where
  "PROFIT_THRESHOLD_DEFAULT = 5"

definition COST_PER_LOTTO_POINT :: int where
  "COST_PER_LOTTO_POINT = 23000"

definition REWARD_PER_LOTTO_POINT_HIT :: int where
  "REWARD_PER_LOTTO_POINT_HIT = 80000"

definition COST_PER_DAY_PREDICTION :: int where
  "COST_PER_DAY_PREDICTION = int NUM_PREDICTED_LOTTO_NUMBERS * COST_PER_LOTTO_POINT"

text \<open>
  A \<open>Map\<close> is the list of its entries in insertion order, with distinct keys; \<open>Map_set\<close>
  is \<open>.set\<close>, which replaces the value of a present key in place and appends a new key.
  \<open>new Map(pairs)\<close> sets the pairs in order.
\<close>

fun Map_set :: "('k \<times> 'v) list \<Rightarrow> 'k \<Rightarrow> 'v \<Rightarrow> ('k \<times> 'v) list" where
  "Map_set [] k v = [(k, v)]"
| "Map_set (e # m) k v = (if fst e = k then (k, v) # m else e # Map_set m k v)"

definition new_Map :: "('k \<times> 'v) list \<Rightarrow> ('k \<times> 'v) list" where
  "new_Map pairs = fold (\<lambda>(k, v) m. Map_set m k v) pairs []"

text \<open>
  The counters of \<open>runBacktest\<close>, which are also the numbers of the returned
  \<open>accuracyStats\<close> object (its averages, percentages and formatted amounts are computed
  from them and not modelled); \<open>strategyPerformance\<close> holds, for every entry of the
  tracker, its name and its two totals; \<open>reason\<close> is only set by \<open>_getEmptyStats\<close>.
\<close>

record accuracyStats =
  totalDaysTested :: nat
  totalCorrectNumbers :: nat
  daysWithHighAccuracy :: nat
  daysMeetingProfitThreshold :: nat
  totalInvestment :: int
  totalGains :: int
  dailyCorrectCounts :: "nat list"
  dailyNetProfits :: "int list"
  strategyPerformance :: "(string \<times> nat \<times> nat) list"
  reason :: "string option"

definition getEmptyStats :: "string \<Rightarrow> accuracyStats" where
  "getEmptyStats r =
     \<lparr>totalDaysTested = 0, totalCorrectNumbers = 0, daysWithHighAccuracy = 0,
      daysMeetingProfitThreshold = 0, totalInvestment = 0, totalGains = 0,
      dailyCorrectCounts = [], dailyNetProfits = [], strategyPerformance = [],
      reason = Some r\<rparr>"

definition initialStats :: accuracyStats where
  "initialStats =
     \<lparr>totalDaysTested = 0, totalCorrectNumbers = 0, daysWithHighAccuracy = 0,
      daysMeetingProfitThreshold = 0, totalInvestment = 0, totalGains = 0,
      dailyCorrectCounts = [], dailyNetProfits = [], strategyPerformance = [],
      reason = None\<rparr>"

text \<open>
  \<open>const strategyInfluenceTracker = new Map(self.PredictionEngine.strategies.map(s =>
  [s.name, {totalInfluenceScore: 0, totalCorrectlyPredictedNumbers: 0}]))\<close>, evaluated
  before the loop and outside its \<open>try\<close>: a TypeError when the engine is undefined, and
  when an entry of its \<open>strategies\<close> is.
\<close>

definition strategyInfluenceTracker :: "Engine option \<Rightarrow> error + (string \<times> nat \<times> nat) list" where
  "strategyInfluenceTracker PredictionEngine =
     (case PredictionEngine of
        None \<Rightarrow> Inl TypeError
      | Some engine \<Rightarrow>
          (case those (strategies engine) of
             None \<Rightarrow> Inl TypeError
           | Some modules \<Rightarrow> Inr (new_Map (map (\<lambda>s. (name s, (0, 0))) modules))))"

text \<open>
  One iteration of the \<open>for\<close> loop, for day index \<open>i\<close>: the \<open>continue\<close> on a short
  training slice, the \<open>try\<close> block on a prediction, and the \<open>catch\<close> block.
\<close>

definition backtest_day ::
  "Engine option \<Rightarrow> DailyDrawRecord list \<Rightarrow> nat \<Rightarrow> accuracyStats \<Rightarrow> accuracyStats" where
  "backtest_day PredictionEngine fullHistoryData i st =
     (let trainingData = take i fullHistoryData;
          actualLandedNumbers = numbers (fullHistoryData ! i)
      in if length trainingData < MIN_HISTORY_FOR_ANALYSIS then st
         else (case call_predictNextDay PredictionEngine (Some trainingData) of
                 Inr simulatedPredictedNumbers \<Rightarrow>
                   (let correctCount =
                          length (filter (\<lambda>predictedNum. predictedNum \<in> set actualLandedNumbers)
                                    simulatedPredictedNumbers)
                    in st\<lparr>totalDaysTested := totalDaysTested st + 1,
                          totalInvestment := totalInvestment st + COST_PER_DAY_PREDICTION,
                          totalCorrectNumbers := totalCorrectNumbers st + correctCount,
                          totalGains := totalGains st + int correctCount * REWARD_PER_LOTTO_POINT_HIT,
                          dailyCorrectCounts := dailyCorrectCounts st @ [correctCount],
                          dailyNetProfits := dailyNetProfits st
                             @ [int correctCount * REWARD_PER_LOTTO_POINT_HIT - COST_PER_DAY_PREDICTION],
                          daysWithHighAccuracy :=
                             (if HIGH_ACCURACY_THRESHOLD \<le> correctCount
                              then daysWithHighAccuracy st + 1 else daysWithHighAccuracy st),
                          daysMeetingProfitThreshold :=
                             (if PROFIT_THRESHOLD_DEFAULT \<le> correctCount
                              then daysMeetingProfitThreshold st + 1
                              else daysMeetingProfitThreshold st)\<rparr>)
               | Inl e \<Rightarrow>
                   st\<lparr>totalDaysTested := totalDaysTested st + 1,
                      totalInvestment := totalInvestment st + COST_PER_DAY_PREDICTION,
                      dailyCorrectCounts := dailyCorrectCounts st @ [0],
                      dailyNetProfits := dailyNetProfits st @ [- COST_PER_DAY_PREDICTION]\<rparr>))"

function backtest_loop ::
  "Engine option \<Rightarrow> DailyDrawRecord list \<Rightarrow> nat \<Rightarrow> nat \<Rightarrow> accuracyStats \<Rightarrow> accuracyStats" where
  "backtest_loop PredictionEngine fullHistoryData i maxTestableIndex st =
     (if i \<le> maxTestableIndex
      then backtest_loop PredictionEngine fullHistoryData (Suc i) maxTestableIndex
             (backtest_day PredictionEngine fullHistoryData i st)
      else st)"
  by pat_completeness auto
termination
  by (relation "measure (\<lambda>(engine, h, i, m, st). Suc m - i)") auto

declare backtest_loop.simps [simp del]

text \<open>
  \<open>runBacktest\<close>. When the window would start before index \<open>MIN_HISTORY_FOR_PREDICTION\<close>
  the source assigns \<open>actualBacktestStartIndex = MIN_HISTORY_FOR_ANALYSIS\<close>: no variable of
  that name is declared (the local constant is \<open>MIN_HISTORY_FOR_PREDICTION\<close>, the other is
  a property of \<open>self.WorkerUtils.CONSTANTS\<close>), so the statement throws a ReferenceError,
  outside the loop's \<open>try\<close>. Then the tracker is built, the loop runs, and the entries
  of the tracker, which the loop never changes, are reported as \<open>strategyPerformance\<close>.
\<close>

definition runBacktest :: "Engine option \<Rightarrow> DailyDrawRecord list \<Rightarrow> error + accuracyStats" where
  "runBacktest PredictionEngine fullHistoryData =
     (let MIN_HISTORY_FOR_PREDICTION = MIN_HISTORY_FOR_ANALYSIS;
          BACKTEST_WINDOW = BACKTEST_WINDOW_SIZE
      in if length fullHistoryData < MIN_HISTORY_FOR_PREDICTION + 1
         then Inr (getEmptyStats
            ''Not enough history for backtest. Min history for prediction not met for even first test day.'')
         else (let maxTestableIndex = int (length fullHistoryData) - 1;
                   actualBacktestStartIndex = maxTestableIndex - int BACKTEST_WINDOW + 1
               in if actualBacktestStartIndex < int MIN_HISTORY_FOR_PREDICTION
                  then Inl ReferenceError
                  else (case strategyInfluenceTracker PredictionEngine of
                          Inl e \<Rightarrow> Inl e
                        | Inr tracker \<Rightarrow>
                            Inr ((backtest_loop PredictionEngine fullHistoryData
                                    (nat actualBacktestStartIndex) (nat maxTestableIndex) initialStats)
                                  \<lparr>strategyPerformance := tracker\<rparr>))))"


section \<open>Example histories\<close>

abbreviation D7 :: DailyDrawRecord where
  "D7 \<equiv> \<lparr>date = 0, dayOfWeek = 0, numbers = [''07''], uniqueNumbers = [''07'']\<rparr>"

abbreviation A7 :: DataAnalyzer where
  "A7 \<equiv> \<lparr>historyData = [D7], allLottoNumbers = generateAllLottoNumbers, currentDayIndex = 1\<rparr>"



section \<open>Properties\<close>

subsection \<open>The universe of numbers\<close>

lemma ALL_LOTTO_NUMBERS_explicit:
  "ALL_LOTTO_NUMBERS = concat (map (\<lambda>a. map (\<lambda>b. [a, b]) ''0123456789'') ''0123456789'')"
  by code_simp

lemma ALL_LOTTO_NUMBERS_struct:
  "ALL_LOTTO_NUMBERS = concat (map (\<lambda>a. map (\<lambda>b. [a, b]) DIGITS) DIGITS)"
  unfolding DIGITS_def by (rule ALL_LOTTO_NUMBERS_explicit)

lemma mem_universe:
  "s \<in> set ALL_LOTTO_NUMBERS \<longleftrightarrow> (\<exists>a b. s = [a, b] \<and> a \<in> set DIGITS \<and> b \<in> set DIGITS)"
  unfolding ALL_LOTTO_NUMBERS_struct by auto

lemma distinct_universe: "distinct ALL_LOTTO_NUMBERS"
  by code_simp

lemma length_universe: "length ALL_LOTTO_NUMBERS = 100"
  unfolding ALL_LOTTO_NUMBERS_explicit by simp

lemma two_digit_universe:
  "length s = 2 \<and> set s \<subseteq> set DIGITS \<longleftrightarrow> s \<in> set ALL_LOTTO_NUMBERS"
proof
  assume h: "length s = 2 \<and> set s \<subseteq> set DIGITS"
  then obtain a b where "s = [a, b]"
    by (cases s; cases "tl s") auto
  with h show "s \<in> set ALL_LOTTO_NUMBERS"
    by (simp add: mem_universe)
next
  assume "s \<in> set ALL_LOTTO_NUMBERS"
  then show "length s = 2 \<and> set s \<subseteq> set DIGITS"
    by (auto simp: mem_universe)
qed

subsection \<open>Reversal and shadow\<close>

lemma reverseNumber_pair: "reverseNumber [a, b] = [b, a]"
  by (simp add: reverseNumber_def)

lemma getBongSo_digit:
  "a \<in> set DIGITS \<Longrightarrow> \<exists>c. getBongSo a = Some c \<and> c \<in> set DIGITS \<and> getBongSo c = Some a"
  by (auto simp: DIGITS_def getBongSo_def BONG_SO_MAP_def)

lemma getLotoBong_pair:
  assumes "a \<in> set DIGITS" "b \<in> set DIGITS"
  shows "\<exists>c d. getLotoBong [a, b] = Some [c, d] \<and> c \<in> set DIGITS \<and> d \<in> set DIGITS
           \<and> getLotoBong [c, d] = Some [a, b]"
proof -
  from getBongSo_digit [OF assms(1)] obtain c
    where c: "getBongSo a = Some c" "c \<in> set DIGITS" "getBongSo c = Some a" by blast
  from getBongSo_digit [OF assms(2)] obtain d
    where d: "getBongSo b = Some d" "d \<in> set DIGITS" "getBongSo d = Some b" by blast
  from c d show ?thesis by (simp add: getLotoBong_def)
qed

text \<open>
  C10. Digit reversal and the shadow mapping are involutions on the universe: for every
  two-character string \<open>s\<close> over the digits 0-9, reversing twice gives \<open>s\<close> back, the
  shadow of the shadow of \<open>s\<close> is \<open>s\<close> (and neither call returns \<open>null\<close>), and both
  images are members of the universe \<open>"00"\<close> .. \<open>"99"\<close>.
\<close>

theorem reverse_and_bong_involutions:
  assumes "length s = 2" and "set s \<subseteq> set DIGITS"
  shows "reverseNumber (reverseNumber s) = s
     \<and> reverseNumber s \<in> set ALL_LOTTO_NUMBERS
     \<and> (\<exists>t. getLotoBong s = Some t \<and> getLotoBong t = Some s \<and> t \<in> set ALL_LOTTO_NUMBERS)"
proof -
  from assms have "s \<in> set ALL_LOTTO_NUMBERS"
    using two_digit_universe by blast
  then obtain a b where s: "s = [a, b]" and a: "a \<in> set DIGITS" and b: "b \<in> set DIGITS"
    by (auto simp: mem_universe)
  have r: "reverseNumber (reverseNumber s) = s"
    by (simp add: s reverseNumber_pair)
  have ru: "reverseNumber s \<in> set ALL_LOTTO_NUMBERS"
    using a b by (simp add: s reverseNumber_pair mem_universe)
  from getLotoBong_pair [OF a b] obtain c d
    where cd: "getLotoBong [a, b] = Some [c, d]" "c \<in> set DIGITS" "d \<in> set DIGITS"
      "getLotoBong [c, d] = Some [a, b]" by blast
  then have "getLotoBong s = Some [c, d] \<and> getLotoBong [c, d] = Some s
      \<and> [c, d] \<in> set ALL_LOTTO_NUMBERS"
    by (simp add: s mem_universe)
  with r ru show ?thesis by blast
qed

theorem reverse_and_bong_involutions_witness:
  "length ''12'' = 2 \<and> set ''12'' \<subseteq> set DIGITS
     \<and> reverseNumber (reverseNumber ''12'') = ''12''
     \<and> reverseNumber ''12'' = ''21''
     \<and> reverseNumber ''12'' \<in> set ALL_LOTTO_NUMBERS
     \<and> getLotoBong ''12'' = Some ''67'' \<and> getLotoBong ''67'' = Some ''12''
     \<and> (\<exists>t. getLotoBong ''12'' = Some t \<and> getLotoBong t = Some ''12''
            \<and> t \<in> set ALL_LOTTO_NUMBERS)"
proof -
  have h1: "length ''12'' = 2" by simp
  have h2: "set ''12'' \<subseteq> set DIGITS" by (simp add: DIGITS_def)
  have e: "reverseNumber ''12'' = ''21'' \<and> getLotoBong ''12'' = Some ''67''
      \<and> getLotoBong ''67'' = Some ''12''"
    by (simp add: reverseNumber_def getLotoBong_def getBongSo_def BONG_SO_MAP_def)
  from reverse_and_bong_involutions [OF h1 h2] h1 h2 e show ?thesis by simp
qed

subsection \<open>Absence status\<close>

lemma fold_set_index:
  "fold (\<lambda>num m'. m'(num \<mapsto> index)) xs m num = (if num \<in> set xs then Some index else m num)"
  by (induction xs arbitrary: m) auto

lemma lastAppearanceMap_snoc:
  "lastAppearanceMap (h @ [d]) =
     fold (\<lambda>num m'. m'(num \<mapsto> length h)) (uniqueNumbers d) (lastAppearanceMap h)"
  by (simp add: lastAppearanceMap_def enumerate_append_eq)

lemma lastAppearanceMap_None:
  "lastAppearanceMap h num = None \<longleftrightarrow> (\<forall>d \<in> set h. num \<notin> set (uniqueNumbers d))"
proof (induction h rule: rev_induct)
  case Nil
  show ?case by (simp add: lastAppearanceMap_def)
next
  case (snoc d h)
  then show ?case by (auto simp: lastAppearanceMap_snoc fold_set_index)
qed

lemma lastAppearanceMap_Some:
  "lastAppearanceMap h num = Some i \<longleftrightarrow>
     i < length h \<and> num \<in> set (uniqueNumbers (h ! i))
     \<and> (\<forall>j. i < j \<and> j < length h \<longrightarrow> num \<notin> set (uniqueNumbers (h ! j)))"
proof (induction h rule: rev_induct)
  case Nil
  show ?case by (simp add: lastAppearanceMap_def)
next
  case (snoc d h)
  show ?case
  proof (cases "num \<in> set (uniqueNumbers d)")
    case True
    have "(length h = i) \<longleftrightarrow>
       (i < Suc (length h) \<and> num \<in> set (uniqueNumbers ((h @ [d]) ! i))
        \<and> (\<forall>j. i < j \<and> j < Suc (length h) \<longrightarrow> num \<notin> set (uniqueNumbers ((h @ [d]) ! j))))"
    proof
      assume "length h = i"
      with True show "i < Suc (length h) \<and> num \<in> set (uniqueNumbers ((h @ [d]) ! i))
        \<and> (\<forall>j. i < j \<and> j < Suc (length h) \<longrightarrow> num \<notin> set (uniqueNumbers ((h @ [d]) ! j)))"
        by auto
    next
      assume r: "i < Suc (length h) \<and> num \<in> set (uniqueNumbers ((h @ [d]) ! i))
        \<and> (\<forall>j. i < j \<and> j < Suc (length h) \<longrightarrow> num \<notin> set (uniqueNumbers ((h @ [d]) ! j)))"
      show "length h = i"
      proof (rule ccontr)
        assume "length h \<noteq> i"
        with r have "i < length h \<and> length h < Suc (length h)" by simp
        with r have "num \<notin> set (uniqueNumbers ((h @ [d]) ! length h))" by blast
        with True show False by simp
      qed
    qed
    with True show ?thesis
      by (simp add: lastAppearanceMap_snoc fold_set_index)
  next
    case False
    have "(i < length h \<and> num \<in> set (uniqueNumbers (h ! i))
        \<and> (\<forall>j. i < j \<and> j < length h \<longrightarrow> num \<notin> set (uniqueNumbers (h ! j)))) \<longleftrightarrow>
       (i < Suc (length h) \<and> num \<in> set (uniqueNumbers ((h @ [d]) ! i))
        \<and> (\<forall>j. i < j \<and> j < Suc (length h) \<longrightarrow> num \<notin> set (uniqueNumbers ((h @ [d]) ! j))))"
      using False by (auto simp: nth_append less_Suc_eq)
    with False snoc show ?thesis
      by (simp add: lastAppearanceMap_snoc fold_set_index)
  qed
qed

text \<open>
  C4. For a non-empty history and every universe member, the entry of \<open>getGanStatus\<close>
  exists, its \<open>daysGone\<close> is non-negative, \<open>daysGone\<close> equals \<open>currentDayIndex\<close> (the
  history length) exactly when the member is in no day's \<open>uniqueNumbers\<close>, and when
  \<open>last\<close> is the most recent record index containing the member, \<open>daysGone\<close> is
  \<open>currentDayIndex - last - 1\<close> (and \<open>lastSeenIndex\<close> is \<open>last\<close>).
\<close>

theorem getGanStatus_daysGone:
  assumes "h \<noteq> []" and "new_DataAnalyzer (Some h) = Inr an" and "num \<in> set ALL_LOTTO_NUMBERS"
  shows "\<exists>g. getGanStatus an num = Some g
     \<and> currentDayIndex an = length h
     \<and> 0 \<le> daysGone g
     \<and> (daysGone g = int (currentDayIndex an) \<longleftrightarrow> (\<forall>d \<in> set h. num \<notin> set (uniqueNumbers d)))
     \<and> (\<forall>last. last < length h \<and> num \<in> set (uniqueNumbers (h ! last))
            \<and> (\<forall>j. last < j \<and> j < length h \<longrightarrow> num \<notin> set (uniqueNumbers (h ! j)))
          \<longrightarrow> daysGone g = int (currentDayIndex an) - int last - 1 \<and> lastSeenIndex g = int last)"
proof -
  from assms(1,2) have an: "historyData an = h" "allLottoNumbers an = ALL_LOTTO_NUMBERS"
    "currentDayIndex an = length h"
    by (auto simp: new_DataAnalyzer_def generateAllLottoNumbers_def)
  show ?thesis
  proof (cases "lastAppearanceMap h num")
    case None
    then have never: "\<forall>d \<in> set h. num \<notin> set (uniqueNumbers d)"
      by (simp add: lastAppearanceMap_None)
    then have "\<And>last. last < length h \<Longrightarrow> num \<notin> set (uniqueNumbers (h ! last))"
      by simp
    with None never assms(3) an show ?thesis
      by (auto simp: getGanStatus_def)
  next
    case (Some i)
    then have i: "i < length h" "num \<in> set (uniqueNumbers (h ! i))"
      "\<forall>j. i < j \<and> j < length h \<longrightarrow> num \<notin> set (uniqueNumbers (h ! j))"
      by (simp_all add: lastAppearanceMap_Some)
    have seen: "\<not> (\<forall>d \<in> set h. num \<notin> set (uniqueNumbers d))"
      using i(1,2) nth_mem by blast
    have uniq: "last = i" if "last < length h" "num \<in> set (uniqueNumbers (h ! last))"
      "\<forall>j. last < j \<and> j < length h \<longrightarrow> num \<notin> set (uniqueNumbers (h ! j))" for last
      using that i by (meson linorder_neqE_nat)
    define g0 where "g0 = \<lparr>daysGone = int (length h) - int i - 1,
        lastSeenDate = Some (date (h ! i)), lastSeenIndex = int i\<rparr>"
    have c1: "getGanStatus an num = Some g0"
      using Some assms(3) an by (simp add: getGanStatus_def g0_def)
    have c3: "0 \<le> daysGone g0"
      using i(1) by (simp add: g0_def)
    have "daysGone g0 \<noteq> int (currentDayIndex an)"
      by (simp add: g0_def an(3))
    with seen have c4: "daysGone g0 = int (currentDayIndex an)
        \<longleftrightarrow> (\<forall>d \<in> set h. num \<notin> set (uniqueNumbers d))"
      by blast
    have c5: "\<forall>last. last < length h \<and> num \<in> set (uniqueNumbers (h ! last))
            \<and> (\<forall>j. last < j \<and> j < length h \<longrightarrow> num \<notin> set (uniqueNumbers (h ! j)))
          \<longrightarrow> daysGone g0 = int (currentDayIndex an) - int last - 1 \<and> lastSeenIndex g0 = int last"
    proof (intro allI impI)
      fix last
      assume "last < length h \<and> num \<in> set (uniqueNumbers (h ! last))
            \<and> (\<forall>j. last < j \<and> j < length h \<longrightarrow> num \<notin> set (uniqueNumbers (h ! j)))"
      then have "last = i" using uniq by blast
      then show "daysGone g0 = int (currentDayIndex an) - int last - 1 \<and> lastSeenIndex g0 = int last"
        by (simp add: g0_def an(3))
    qed
    show ?thesis
      by (intro exI [of _ g0] conjI c1 c3 c4 c5 an(3))
  qed
qed

theorem getGanStatus_daysGone_witness:
  "[\<lparr>date = 0, dayOfWeek = 0, numbers = [''07'', ''07''], uniqueNumbers = [''07'']\<rparr>] \<noteq> []
   \<and> new_DataAnalyzer (Some [\<lparr>date = 0, dayOfWeek = 0, numbers = [''07'', ''07''],
        uniqueNumbers = [''07'']\<rparr>])
      = Inr \<lparr>historyData = [\<lparr>date = 0, dayOfWeek = 0, numbers = [''07'', ''07''],
               uniqueNumbers = [''07'']\<rparr>],
             allLottoNumbers = generateAllLottoNumbers, currentDayIndex = 1\<rparr>
   \<and> ''07'' \<in> set ALL_LOTTO_NUMBERS
   \<and> (\<exists>g. getGanStatus \<lparr>historyData = [\<lparr>date = 0, dayOfWeek = 0, numbers = [''07'', ''07''],
               uniqueNumbers = [''07'']\<rparr>],
             allLottoNumbers = generateAllLottoNumbers, currentDayIndex = 1\<rparr> ''07'' = Some g
        \<and> daysGone g = 0)"
proof -
  let ?h = "[\<lparr>date = 0, dayOfWeek = 0, numbers = [''07'', ''07''], uniqueNumbers = [''07'']\<rparr>]"
  let ?an = "\<lparr>historyData = ?h, allLottoNumbers = generateAllLottoNumbers, currentDayIndex = 1\<rparr>"
  have h1: "?h \<noteq> []" by simp
  have h2: "new_DataAnalyzer (Some ?h) = Inr ?an" by (simp add: new_DataAnalyzer_def)
  have h3: "''07'' \<in> set ALL_LOTTO_NUMBERS" by (simp add: mem_universe DIGITS_def)
  from getGanStatus_daysGone [OF h1 h2 h3] obtain g where
    g: "getGanStatus ?an ''07'' = Some g"
    and l: "\<forall>last. last < length ?h \<and> ''07'' \<in> set (uniqueNumbers (?h ! last))
            \<and> (\<forall>j. last < j \<and> j < length ?h \<longrightarrow> ''07'' \<notin> set (uniqueNumbers (?h ! j)))
          \<longrightarrow> daysGone g = int (currentDayIndex ?an) - int last - 1 \<and> lastSeenIndex g = int last"
    by blast
  from l [THEN spec, of 0] have "daysGone g = 0" by auto
  with h1 h2 h3 g show ?thesis by blast
qed

subsection \<open>Consecutive appearances\<close>

lemma consecutive_loop_streak:
  "1 \<le> i \<Longrightarrow>
   consecutive_loop h N num i c =
     c + length (takeWhile (\<lambda>d. num \<in> set (uniqueNumbers d)) (drop (i - 1) (take N (rev h))))"
proof (induction h N num i c rule: consecutive_loop.induct)
  case (1 h N num i c)
  let ?P = "\<lambda>d. num \<in> set (uniqueNumbers d)"
  let ?xs = "take N (rev h)"
  show ?case
  proof (cases "i \<le> N \<and> 0 \<le> int (length h) - int i")
    case False
    then have "length ?xs \<le> i - 1" using "1.prems" by auto
    then have "drop (i - 1) ?xs = []" by simp
    moreover have "consecutive_loop h N num i c = c"
      by (subst consecutive_loop.simps) (simp only: False if_False)
    ultimately show ?thesis by simp
  next
    case True
    with "1.prems" have lt: "i - 1 < length ?xs" by auto
    have el: "?xs ! (i - 1) = h ! (length h - i)"
      using True "1.prems" lt by (simp add: rev_nth)
    have dr: "drop (i - 1) ?xs = h ! (length h - i) # drop i ?xs"
      using Cons_nth_drop_Suc [OF lt] el "1.prems" by simp
    show ?thesis
    proof (cases "?P (h ! (length h - i))")
      case yes: True
      have "consecutive_loop h N num i c = consecutive_loop h N num (Suc i) (Suc c)"
        using True yes by (subst consecutive_loop.simps) simp
      also have "\<dots> = Suc c + length (takeWhile ?P (drop (Suc i - 1) ?xs))"
        using "1.IH" [OF True yes] by simp
      finally have "consecutive_loop h N num i c = Suc c + length (takeWhile ?P (drop i ?xs))"
        by simp
      moreover have "takeWhile ?P (drop (i - 1) ?xs)
          = h ! (length h - i) # takeWhile ?P (drop i ?xs)"
        unfolding dr using yes by simp
      ultimately show ?thesis by simp
    next
      case no: False
      have "consecutive_loop h N num i c = c"
        using True no by (subst consecutive_loop.simps) simp
      moreover have "takeWhile ?P (drop (i - 1) ?xs) = []"
        unfolding dr using no by simp
      ultimately show ?thesis by simp
    qed
  qed
qed

text \<open>
  C9 as stated (the streak is reported also when the history is shorter than \<open>N\<close>) fails:
  with a single day containing \<open>"07"\<close> and \<open>N = 3\<close> the streak of \<open>"07"\<close> is 1, but
  the early return reports 0.
\<close>

theorem getConsecutiveAppearance_short_history_counterexample:
  "prepared [D7]
   \<and> new_DataAnalyzer (Some [D7]) = Inr A7
   \<and> getConsecutiveAppearance A7 3 ''07'' = Some 0
   \<and> recent_streak [D7] 3 ''07'' = 1"
  by (simp add: getConsecutiveAppearance_def recent_streak_def new_DataAnalyzer_def
      generateAllLottoNumbers_def mem_universe DIGITS_def prepared_def Set_of_def Set_add_def)

text \<open>
  C9, amended. For every non-empty history, every universe member and every \<open>N \<ge> 1\<close>:
  when the history has at least \<open>N\<close> records, \<open>getConsecutiveAppearance\<close> reports the
  number of the most recent \<open>N\<close> records, walking backward from the latest, that contain
  the member before the first miss; when the history is shorter than \<open>N\<close>, it reports 0
  for every member.
\<close>

theorem getConsecutiveAppearance_streak:
  assumes "h \<noteq> []" and "new_DataAnalyzer (Some h) = Inr an" and "num \<in> set ALL_LOTTO_NUMBERS"
    and "1 \<le> N"
  shows "(N \<le> length h \<longrightarrow> getConsecutiveAppearance an N num = Some (recent_streak h N num))
       \<and> (length h < N \<longrightarrow> getConsecutiveAppearance an N num = Some 0)"
proof -
  from assms(1,2) have an: "historyData an = h" "allLottoNumbers an = ALL_LOTTO_NUMBERS"
    by (auto simp: new_DataAnalyzer_def generateAllLottoNumbers_def)
  have "consecutive_loop h N num 1 0 = recent_streak h N num"
    by (simp add: consecutive_loop_streak recent_streak_def)
  with an assms(3) show ?thesis
    by (simp add: getConsecutiveAppearance_def Let_def)
qed

theorem getConsecutiveAppearance_streak_witness:
  "[\<lparr>date = 0, dayOfWeek = 0, numbers = [''07''], uniqueNumbers = [''07'']\<rparr>,
    \<lparr>date = 1, dayOfWeek = 1, numbers = [''07'', ''12''], uniqueNumbers = [''07'', ''12'']\<rparr>] \<noteq> []
   \<and> new_DataAnalyzer (Some [\<lparr>date = 0, dayOfWeek = 0, numbers = [''07''], uniqueNumbers = [''07'']\<rparr>,
        \<lparr>date = 1, dayOfWeek = 1, numbers = [''07'', ''12''], uniqueNumbers = [''07'', ''12'']\<rparr>])
      = Inr \<lparr>historyData = [\<lparr>date = 0, dayOfWeek = 0, numbers = [''07''], uniqueNumbers = [''07'']\<rparr>,
               \<lparr>date = 1, dayOfWeek = 1, numbers = [''07'', ''12''], uniqueNumbers = [''07'', ''12'']\<rparr>],
             allLottoNumbers = generateAllLottoNumbers, currentDayIndex = 2\<rparr>
   \<and> ''07'' \<in> set ALL_LOTTO_NUMBERS \<and> (1::nat) \<le> 2
   \<and> getConsecutiveAppearance
        \<lparr>historyData = [\<lparr>date = 0, dayOfWeek = 0, numbers = [''07''], uniqueNumbers = [''07'']\<rparr>,
               \<lparr>date = 1, dayOfWeek = 1, numbers = [''07'', ''12''], uniqueNumbers = [''07'', ''12'']\<rparr>],
         allLottoNumbers = generateAllLottoNumbers, currentDayIndex = 2\<rparr> 2 ''07'' = Some 2"
proof -
  let ?h = "[\<lparr>date = 0, dayOfWeek = 0, numbers = [''07''], uniqueNumbers = [''07'']\<rparr>,
    \<lparr>date = 1, dayOfWeek = 1, numbers = [''07'', ''12''], uniqueNumbers = [''07'', ''12'']\<rparr>]"
  let ?an = "\<lparr>historyData = ?h, allLottoNumbers = generateAllLottoNumbers, currentDayIndex = 2\<rparr>"
  have h1: "?h \<noteq> []" by simp
  have h2: "new_DataAnalyzer (Some ?h) = Inr ?an" by (simp add: new_DataAnalyzer_def)
  have h3: "''07'' \<in> set ALL_LOTTO_NUMBERS" by (simp add: mem_universe DIGITS_def)
  have h4: "(1::nat) \<le> 2" by simp
  have s: "recent_streak ?h 2 ''07'' = 2"
    by (simp add: recent_streak_def take_Suc_conv_app_nth numeral_2_eq_2)
  from getConsecutiveAppearance_streak [OF h1 h2 h3 h4] s
  have "getConsecutiveAppearance ?an 2 ''07'' = Some 2" by simp
  with h1 h2 h3 show ?thesis by simp
qed

subsection \<open>Prepared histories\<close>

lemma fold_Set_add:
  "distinct s \<Longrightarrow> distinct (fold Set_add xs s) \<and> set (fold Set_add xs s) = set xs \<union> set s"
  by (induction xs arbitrary: s) (auto simp: Set_add_def)

lemma Set_of_props: "distinct (Set_of xs) \<and> set (Set_of xs) = set xs"
  using fold_Set_add [of "[]" xs] by (simp add: Set_of_def)

lemma prepared_day:
  "prepared h \<Longrightarrow> d \<in> set h \<Longrightarrow>
     distinct (uniqueNumbers d) \<and> set (uniqueNumbers d) \<subseteq> set ALL_LOTTO_NUMBERS"
  by (simp add: prepared_def Set_of_props)

subsection \<open>Periodic bridges\<close>

lemma push_index_ok:
  "distinct xs \<Longrightarrow> set xs \<subseteq> dom m \<Longrightarrow>
   push_index m idx xs = Inr (\<lambda>n. if n \<in> set xs then Some (the (m n) @ [idx]) else m n)"
proof (induction xs arbitrary: m)
  case Nil
  show ?case by simp
next
  case (Cons x xs)
  from Cons.prems obtain ixs where ixs: "m x = Some ixs" by auto
  have "push_index (m(x \<mapsto> ixs @ [idx])) idx xs =
      Inr (\<lambda>n. if n \<in> set xs then Some (the ((m(x \<mapsto> ixs @ [idx])) n) @ [idx]) else (m(x \<mapsto> ixs @ [idx])) n)"
    using Cons.prems by (intro Cons.IH) auto
  also have "(\<lambda>n. if n \<in> set xs then Some (the ((m(x \<mapsto> ixs @ [idx])) n) @ [idx]) else (m(x \<mapsto> ixs @ [idx])) n)
     = (\<lambda>n. if n \<in> set (x # xs) then Some (the (m n) @ [idx]) else m n)"
    using Cons.prems ixs by (auto simp: fun_eq_iff)
  finally have e: "push_index (m(x \<mapsto> ixs @ [idx])) idx xs
     = Inr (\<lambda>n. if n \<in> set (x # xs) then Some (the (m n) @ [idx]) else m n)" .
  show ?case
    by (simp only: push_index.simps ixs option.case e)
qed

lemma collect_indices_ok:
  "\<forall>d \<in> set ds. distinct (uniqueNumbers d) \<and> set (uniqueNumbers d) \<subseteq> dom m \<Longrightarrow>
   collect_indices m s ds =
     Inr (\<lambda>n. map_option (\<lambda>ixs. ixs @ filter (\<lambda>k. n \<in> set (uniqueNumbers (ds ! (k - s)))) [s ..< s + length ds]) (m n))"
proof (induction ds arbitrary: m s)
  case Nil
  show ?case by (simp add: option.map_ident)
next
  case (Cons d ds)
  let ?m' = "\<lambda>n. if n \<in> set (uniqueNumbers d) then Some (the (m n) @ [s]) else m n"
  have p: "push_index m s (uniqueNumbers d) = Inr ?m'"
    using Cons.prems by (intro push_index_ok) auto
  have dom: "dom ?m' = dom m" using Cons.prems by (auto split: if_splits)
  have ih: "collect_indices ?m' (Suc s) ds =
     Inr (\<lambda>n. map_option (\<lambda>ixs. ixs @ filter (\<lambda>k. n \<in> set (uniqueNumbers (ds ! (k - Suc s)))) [Suc s ..< Suc s + length ds]) (?m' n))"
    using Cons.prems unfolding dom [symmetric] by (intro Cons.IH) auto
  have sh: "filter (\<lambda>k. n \<in> set (uniqueNumbers ((d # ds) ! (k - s)))) [s ..< s + length (d # ds)]
      = (if n \<in> set (uniqueNumbers d) then [s] else [])
        @ filter (\<lambda>k. n \<in> set (uniqueNumbers (ds ! (k - Suc s)))) [Suc s ..< Suc s + length ds]" for n
  proof -
    have "[s ..< s + length (d # ds)] = s # [Suc s ..< Suc s + length ds]"
      using upt_conv_Cons [of s "Suc s + length ds"] by simp
    moreover have "filter (\<lambda>k. n \<in> set (uniqueNumbers ((d # ds) ! (k - s)))) [Suc s ..< Suc s + length ds]
       = filter (\<lambda>k. n \<in> set (uniqueNumbers (ds ! (k - Suc s)))) [Suc s ..< Suc s + length ds]"
      by (rule filter_cong) (auto simp: nth_Cons' Suc_diff_le)
    ultimately show ?thesis by simp
  qed
  have "(\<lambda>n. map_option (\<lambda>ixs. ixs @ filter (\<lambda>k. n \<in> set (uniqueNumbers (ds ! (k - Suc s)))) [Suc s ..< Suc s + length ds]) (?m' n))
     = (\<lambda>n. map_option (\<lambda>ixs. ixs @ filter (\<lambda>k. n \<in> set (uniqueNumbers ((d # ds) ! (k - s)))) [s ..< s + length (d # ds)]) (m n))"
  proof
    fix n
    show "map_option (\<lambda>ixs. ixs @ filter (\<lambda>k. n \<in> set (uniqueNumbers (ds ! (k - Suc s)))) [Suc s ..< Suc s + length ds]) (?m' n)
     = map_option (\<lambda>ixs. ixs @ filter (\<lambda>k. n \<in> set (uniqueNumbers ((d # ds) ! (k - s)))) [s ..< s + length (d # ds)]) (m n)"
      unfolding sh using Cons.prems by (cases "m n") auto
  qed
  with p ih show ?case by simp
qed

lemma check_run_iff:
  "check_run indices i period m j \<longleftrightarrow>
     (\<forall>k. j \<le> k \<and> k + 1 < m \<longrightarrow> int (indices ! (i + k + 1)) - int (indices ! (i + k)) = int period)"
proof (induction indices i period m j rule: check_run.induct)
  case (1 indices i period m j)
  show ?case
  proof (cases "int j < int m - 1")
    case False
    then show ?thesis by (subst check_run.simps) auto
  next
    case True
    show ?thesis
    proof (cases "int (indices ! (i + j + 1)) - int (indices ! (i + j)) \<noteq> int period")
      case bad: True
      have "\<not> check_run indices i period m j"
        using True bad by (subst check_run.simps) simp
      moreover have "j \<le> j \<and> j + 1 < m" using True by auto
      ultimately show ?thesis using bad by blast
    next
      case good: False
      have "check_run indices i period m j = check_run indices i period m (Suc j)"
        using True good by (subst check_run.simps) simp
      also have "\<dots> \<longleftrightarrow> (\<forall>k. Suc j \<le> k \<and> k + 1 < m \<longrightarrow>
          int (indices ! (i + k + 1)) - int (indices ! (i + k)) = int period)"
        using "1.IH" [OF True good] .
      also have "\<dots> \<longleftrightarrow> (\<forall>k. j \<le> k \<and> k + 1 < m \<longrightarrow>
          int (indices ! (i + k + 1)) - int (indices ! (i + k)) = int period)"
        using good by (metis Suc_leI le_neq_implies_less Suc_leD)
      finally show ?thesis .
    qed
  qed
qed


lemma scan_starts_iff:
  "scan_starts indices period m cur i0 \<longleftrightarrow>
     (\<exists>i. i0 \<le> i \<and> int i \<le> int (length indices) - int m
          \<and> check_run indices i period m 0
          \<and> 0 \<le> int i + int m - 1 \<and> int i + int m - 1 < int (length indices)
          \<and> indices ! (i + m - 1) + period = cur)"
proof (induction indices period m cur i0 rule: scan_starts.induct)
  case (1 indices period m cur i0)
  let ?Q = "\<lambda>i. int i \<le> int (length indices) - int m
          \<and> check_run indices i period m 0
          \<and> 0 \<le> int i + int m - 1 \<and> int i + int m - 1 < int (length indices)
          \<and> indices ! (i + m - 1) + period = cur"
  show ?case
  proof (cases "int i0 \<le> int (length indices) - int m")
    case False
    then have "\<not> scan_starts indices period m cur i0"
      by (subst scan_starts.simps) simp
    moreover from False have "\<not> (\<exists>i. i0 \<le> i \<and> ?Q i)" by auto
    ultimately show ?thesis by blast
  next
    case True
    show ?thesis
    proof (cases "?Q i0")
      case hit: True
      then have "scan_starts indices period m cur i0"
        by (subst scan_starts.simps) simp
      with hit show ?thesis by blast
    next
      case miss: False
      then have "scan_starts indices period m cur i0 = scan_starts indices period m cur (Suc i0)"
        using True by (subst scan_starts.simps) auto
      also have "\<dots> \<longleftrightarrow> (\<exists>i. Suc i0 \<le> i \<and> ?Q i)"
        using miss True by (intro "1.IH") auto
      also have "\<dots> \<longleftrightarrow> (\<exists>i. i0 \<le> i \<and> ?Q i)"
        using miss by (metis Suc_leI le_neq_implies_less Suc_leD)
      finally show ?thesis .
    qed
  qed
qed

lemma scan_periods_iff:
  "scan_periods indices m maxPeriod cur p0 \<longleftrightarrow>
     (\<exists>p. p0 \<le> p \<and> p \<le> maxPeriod \<and> scan_starts indices p m cur 0)"
proof (induction indices m maxPeriod cur p0 rule: scan_periods.induct)
  case (1 indices m maxPeriod cur p0)
  show ?case
  proof (cases "p0 \<le> maxPeriod")
    case False
    then have "\<not> scan_periods indices m maxPeriod cur p0"
      by (subst scan_periods.simps) simp
    moreover from False have "\<not> (\<exists>p. p0 \<le> p \<and> p \<le> maxPeriod \<and> scan_starts indices p m cur 0)"
      by auto
    ultimately show ?thesis by blast
  next
    case True
    show ?thesis
    proof (cases "scan_starts indices p0 m cur 0")
      case hit: True
      then have "scan_periods indices m maxPeriod cur p0"
        using True by (subst scan_periods.simps) simp
      with hit True show ?thesis by blast
    next
      case miss: False
      then have "scan_periods indices m maxPeriod cur p0
          = scan_periods indices m maxPeriod cur (Suc p0)"
        using True by (subst scan_periods.simps) simp
      also have "\<dots> \<longleftrightarrow> (\<exists>p. Suc p0 \<le> p \<and> p \<le> maxPeriod \<and> scan_starts indices p m cur 0)"
        using "1.IH" [OF True miss] .
      also have "\<dots> \<longleftrightarrow> (\<exists>p. p0 \<le> p \<and> p \<le> maxPeriod \<and> scan_starts indices p m cur 0)"
        using miss by (metis Suc_leI le_neq_implies_less Suc_leD)
      finally show ?thesis .
    qed
  qed
qed

lemma bridge_scan_spec:
  assumes "1 \<le> m" and "m \<le> length idx"
  shows "scan_periods idx m maxPeriod cur 1 \<longleftrightarrow>
     (\<exists>period \<in> {1..maxPeriod}. \<exists>i \<in> {0..length idx - m}.
           (\<forall>j \<in> {0..<m - 1}. idx ! (i + j + 1) = idx ! (i + j) + period)
           \<and> idx ! (i + m - 1) + period = cur)"
proof -
  have run: "check_run idx i period m 0 \<longleftrightarrow>
      (\<forall>j \<in> {0..<m - 1}. idx ! (i + j + 1) = idx ! (i + j) + period)" for i period
  proof -
    have "(int (idx ! (i + k + 1)) - int (idx ! (i + k)) = int period)
        \<longleftrightarrow> (idx ! (i + k + 1) = idx ! (i + k) + period)" for k
      by linarith
    then show ?thesis
      unfolding check_run_iff using assms(1) by (auto simp: less_diff_conv)
  qed
  have st: "scan_starts idx period m cur 0 \<longleftrightarrow>
      (\<exists>i \<in> {0..length idx - m}.
           (\<forall>j \<in> {0..<m - 1}. idx ! (i + j + 1) = idx ! (i + j) + period)
           \<and> idx ! (i + m - 1) + period = cur)" for period
  proof -
    have "(int i \<le> int (length idx) - int m
          \<and> check_run idx i period m 0
          \<and> 0 \<le> int i + int m - 1 \<and> int i + int m - 1 < int (length idx)
          \<and> idx ! (i + m - 1) + period = cur)
       \<longleftrightarrow> (i \<le> length idx - m \<and> (\<forall>j \<in> {0..<m - 1}. idx ! (i + j + 1) = idx ! (i + j) + period)
           \<and> idx ! (i + m - 1) + period = cur)" for i
      unfolding run using assms by auto
    then show ?thesis
      unfolding scan_starts_iff by auto
  qed
  show ?thesis
    unfolding scan_periods_iff st Bex_def atLeastAtMost_iff by blast
qed

lemma getHistorySlice_drop:
  "getHistorySlice an daysLookback =
     drop (if daysLookback = 0 then length (historyData an)
           else length (historyData an) - daysLookback) (historyData an)"
  by (auto simp: getHistorySlice_def nat_diff_distrib' max_def intro: arg_cong2 [where f = drop])

lemma collect_window:
  assumes "prepared h" and "st \<le> length h"
  shows "collect_indices (\<lambda>num. if num \<in> set ALL_LOTTO_NUMBERS then Some [] else None) st (drop st h)
    = Inr (\<lambda>num. if num \<in> set ALL_LOTTO_NUMBERS
                 then Some (filter (\<lambda>k. num \<in> set (uniqueNumbers (h ! k))) [st ..< length h])
                 else None)"
proof -
  let ?m = "\<lambda>num. if num \<in> set ALL_LOTTO_NUMBERS then Some ([]::nat list) else None"
  have dom: "dom ?m = set ALL_LOTTO_NUMBERS" by (auto split: if_splits)
  have pre: "\<forall>d \<in> set (drop st h). distinct (uniqueNumbers d) \<and> set (uniqueNumbers d) \<subseteq> dom ?m"
    unfolding dom using assms(1) by (meson in_set_dropD prepared_day)
  have f: "filter (\<lambda>k. n \<in> set (uniqueNumbers (drop st h ! (k - st)))) [st ..< st + length (drop st h)]
      = filter (\<lambda>k. n \<in> set (uniqueNumbers (h ! k))) [st ..< length h]" for n
  proof -
    have "st + length (drop st h) = length h" using assms(2) by simp
    moreover have "filter (\<lambda>k. n \<in> set (uniqueNumbers (drop st h ! (k - st)))) [st ..< length h]
      = filter (\<lambda>k. n \<in> set (uniqueNumbers (h ! k))) [st ..< length h]"
      by (rule filter_cong) auto
    ultimately show ?thesis by simp
  qed
  show ?thesis
    unfolding collect_indices_ok [OF pre] f by (auto simp: fun_eq_iff)
qed

lemma window_indices_outside:
  assumes "prepared h" and "num \<notin> set ALL_LOTTO_NUMBERS"
  shows "window_indices h daysLookback num = []"
proof -
  have "num \<notin> set (uniqueNumbers (h ! k))" if "k < length h" for k
    using assms that by (meson nth_mem prepared_day subsetD)
  then show ?thesis
    by (auto simp: window_indices_def filter_empty_conv)
qed

text \<open>
  C7. For every non-empty prepared history, every \<open>minOccurrences \<ge> 1\<close>, every
  \<open>maxPeriod \<ge> 1\<close> and every lookback window, \<open>getConsistentPeriodBridge\<close> returns a
  set (membership only, no score), and a number is in it exactly when it has at least
  \<open>minOccurrences\<close> appearance indices within the window and there are a period in
  \<open>1..maxPeriod\<close> and a run of \<open>minOccurrences\<close> consecutive appearance indices spaced
  exactly the period apart whose last index plus the period is \<open>currentDayIndex\<close>.
\<close>

theorem getConsistentPeriodBridge_active:
  assumes "h \<noteq> []" and "new_DataAnalyzer (Some h) = Inr an" and "prepared h"
    and "1 \<le> minOccurrences" and "1 \<le> maxPeriod"
  shows "\<exists>S. getConsistentPeriodBridge an minOccurrences maxPeriod daysLookback = Inr S
       \<and> (\<forall>num. num \<in> S \<longleftrightarrow> active_bridge h minOccurrences maxPeriod daysLookback num)"
proof -
  from assms(1,2) have an: "historyData an = h" "allLottoNumbers an = ALL_LOTTO_NUMBERS"
    "currentDayIndex an = length h"
    by (auto simp: new_DataAnalyzer_def generateAllLottoNumbers_def)
  define st where "st = (if daysLookback = 0 then length h else length h - daysLookback)"
  have st: "st \<le> length h" by (simp add: st_def)
  have sl: "getHistorySlice an daysLookback = drop st h"
    by (simp add: getHistorySlice_drop an st_def)
  have si: "length h - length (drop st h) = st" using st by simp
  define S where "S = set (filter (\<lambda>num.
       minOccurrences \<le> length (window_indices h daysLookback num)
       \<and> scan_periods (window_indices h daysLookback num) minOccurrences maxPeriod (length h) 1)
     ALL_LOTTO_NUMBERS)"
  have wi: "window_indices h daysLookback num
      = filter (\<lambda>k. num \<in> set (uniqueNumbers (h ! k))) [st ..< length h]" for num
    by (simp add: window_indices_def st_def)
  have res: "getConsistentPeriodBridge an minOccurrences maxPeriod daysLookback = Inr S"
    unfolding getConsistentPeriodBridge_def Let_def sl an si collect_window [OF assms(3) st] S_def wi
    by (auto intro!: arg_cong [where f = set] filter_cong)
  have mem: "num \<in> S \<longleftrightarrow> active_bridge h minOccurrences maxPeriod daysLookback num" for num
  proof (cases "num \<in> set ALL_LOTTO_NUMBERS")
    case False
    then have "window_indices h daysLookback num = []"
      using assms(3) by (rule window_indices_outside [rotated])
    with False assms(4) show ?thesis
      by (simp add: S_def active_bridge_def)
  next
    case True
    show ?thesis
    proof (cases "minOccurrences \<le> length (window_indices h daysLookback num)")
      case False
      then show ?thesis by (simp add: S_def active_bridge_def)
    next
      case len: True
      from True len show ?thesis
        unfolding S_def active_bridge_def Let_def
        using bridge_scan_spec [OF assms(4) len] by simp
    qed
  qed
  from res mem show ?thesis by blast
qed


theorem getConsistentPeriodBridge_active_witness:
  "[\<lparr>date = 0, dayOfWeek = 0, numbers = [''07''], uniqueNumbers = [''07'']\<rparr>,
    \<lparr>date = 1, dayOfWeek = 1, numbers = [''07''], uniqueNumbers = [''07'']\<rparr>,
    \<lparr>date = 2, dayOfWeek = 2, numbers = [''07''], uniqueNumbers = [''07'']\<rparr>] \<noteq> []
   \<and> new_DataAnalyzer (Some
        [\<lparr>date = 0, dayOfWeek = 0, numbers = [''07''], uniqueNumbers = [''07'']\<rparr>,
         \<lparr>date = 1, dayOfWeek = 1, numbers = [''07''], uniqueNumbers = [''07'']\<rparr>,
         \<lparr>date = 2, dayOfWeek = 2, numbers = [''07''], uniqueNumbers = [''07'']\<rparr>])
       = Inr \<lparr>historyData =
                [\<lparr>date = 0, dayOfWeek = 0, numbers = [''07''], uniqueNumbers = [''07'']\<rparr>,
                 \<lparr>date = 1, dayOfWeek = 1, numbers = [''07''], uniqueNumbers = [''07'']\<rparr>,
                 \<lparr>date = 2, dayOfWeek = 2, numbers = [''07''], uniqueNumbers = [''07'']\<rparr>],
              allLottoNumbers = generateAllLottoNumbers, currentDayIndex = 3\<rparr>
   \<and> prepared
        [\<lparr>date = 0, dayOfWeek = 0, numbers = [''07''], uniqueNumbers = [''07'']\<rparr>,
         \<lparr>date = 1, dayOfWeek = 1, numbers = [''07''], uniqueNumbers = [''07'']\<rparr>,
         \<lparr>date = 2, dayOfWeek = 2, numbers = [''07''], uniqueNumbers = [''07'']\<rparr>]
   \<and> (1::nat) \<le> 3 \<and> (1::nat) \<le> 7
   \<and> (\<exists>S. getConsistentPeriodBridge
          \<lparr>historyData =
                [\<lparr>date = 0, dayOfWeek = 0, numbers = [''07''], uniqueNumbers = [''07'']\<rparr>,
                 \<lparr>date = 1, dayOfWeek = 1, numbers = [''07''], uniqueNumbers = [''07'']\<rparr>,
                 \<lparr>date = 2, dayOfWeek = 2, numbers = [''07''], uniqueNumbers = [''07'']\<rparr>],
              allLottoNumbers = generateAllLottoNumbers, currentDayIndex = 3\<rparr> 3 7 60 = Inr S
        \<and> ''07'' \<in> S \<and> ''08'' \<notin> S)"
proof -
  let ?h = "[\<lparr>date = 0, dayOfWeek = 0, numbers = [''07''], uniqueNumbers = [''07'']\<rparr>,
    \<lparr>date = 1, dayOfWeek = 1, numbers = [''07''], uniqueNumbers = [''07'']\<rparr>,
    \<lparr>date = 2, dayOfWeek = 2, numbers = [''07''], uniqueNumbers = [''07'']\<rparr>]"
  let ?an = "\<lparr>historyData = ?h, allLottoNumbers = generateAllLottoNumbers, currentDayIndex = 3\<rparr>"
  have h1: "?h \<noteq> []" by simp
  have h2: "new_DataAnalyzer (Some ?h) = Inr ?an" by (simp add: new_DataAnalyzer_def)
  have h3: "prepared ?h"
    by (simp add: prepared_def Set_of_def Set_add_def mem_universe DIGITS_def)
  have h4: "(1::nat) \<le> 3" by simp
  have h5: "(1::nat) \<le> 7" by simp
  have up: "[0..<3] = [0, 1, 2]" by (simp add: upt_rec)
  have w7: "window_indices ?h 60 ''07'' = [0, 1, 2]"
    by (simp add: window_indices_def up)
  have w8: "window_indices ?h 60 ''08'' = []"
    by (simp add: window_indices_def up)
  have a7: "active_bridge ?h 3 7 60 ''07''"
    unfolding active_bridge_def Let_def w7
    by (intro conjI bexI [of _ 1] bexI [of _ 0] ballI) (auto simp: nth_Cons')
  have a8: "\<not> active_bridge ?h 3 7 60 ''08''"
    unfolding active_bridge_def Let_def w8 by simp
  from getConsistentPeriodBridge_active [OF h1 h2 h3 h4 h5, of 60] a7 a8 h1 h2 h3
  show ?thesis by auto
qed

subsection \<open>Cycle analysis\<close>


lemma cycle_entry_Inr:
  "cycle_entry cur info = Inr info' \<Longrightarrow>
     consistencyScore info' = consistencyScore info \<and> appearances info' = appearances info
     \<and> length (appearances info) < 2"
  by (auto simp: cycle_entry_def Let_def averageArray_def cycle_gaps_def
      split: if_splits sum.splits)

lemma cycle_entry_short:
  "length (appearances info) < 2 \<Longrightarrow> \<exists>info'. cycle_entry cur info = Inr info'"
  by (simp add: cycle_entry_def Let_def)

lemma cycle_forEach_Inr:
  "cycle_forEach cur m keys = Inr m' \<Longrightarrow> m num = Some info \<Longrightarrow>
     \<exists>info'. m' num = Some info' \<and> consistencyScore info' = consistencyScore info
        \<and> appearances info' = appearances info"
proof (induction keys arbitrary: m info)
  case Nil
  then show ?case by simp
next
  case (Cons k keys)
  show ?case
  proof (cases "m k")
    case None
    with Cons.prems have "cycle_forEach cur m keys = Inr m'" by simp
    from Cons.IH [OF this Cons.prems(2)] show ?thesis .
  next
    case (Some ki)
    with Cons.prems(1) obtain ki' where e: "cycle_entry cur ki = Inr ki'"
      and r: "cycle_forEach cur (m(k \<mapsto> ki')) keys = Inr m'"
      by (auto split: sum.splits)
    show ?thesis
    proof (cases "num = k")
      case True
      with Some Cons.prems(2) have "ki = info" by simp
      with cycle_entry_Inr [OF e]
      have p: "consistencyScore ki' = consistencyScore info" "appearances ki' = appearances info"
        by simp_all
      have "(m(k \<mapsto> ki')) num = Some ki'" using True by simp
      from Cons.IH [OF r this] p show ?thesis by auto
    next
      case False
      then have "(m(k \<mapsto> ki')) num = Some info" using Cons.prems(2) by simp
      from Cons.IH [OF r this] show ?thesis .
    qed
  qed
qed

lemma cycle_forEach_returns:
  "(\<And>num info. m num = Some info \<Longrightarrow> length (appearances info) < 2) \<Longrightarrow>
     \<exists>m'. cycle_forEach cur m keys = Inr m'"
proof (induction keys arbitrary: m)
  case Nil
  show ?case by simp
next
  case (Cons k keys)
  show ?case
  proof (cases "m k")
    case None
    with Cons show ?thesis by simp
  next
    case (Some ki)
    from Cons.prems [OF Some] cycle_entry_short obtain ki' where e: "cycle_entry cur ki = Inr ki'"
      by blast
    from cycle_entry_Inr [OF e] have a: "appearances ki' = appearances ki" by simp
    have "\<exists>m'. cycle_forEach cur (m(k \<mapsto> ki')) keys = Inr m'"
    proof (rule Cons.IH)
      fix num info
      assume "(m(k \<mapsto> ki')) num = Some info"
      then show "length (appearances info) < 2"
        using Cons.prems [OF Some] Cons.prems a by (cases "num = k") auto
    qed
    with Some e show ?thesis by simp
  qed
qed


lemma push_appearance_Inr:
  "push_appearance m idx xs = Inr m' \<Longrightarrow> m num = Some info \<Longrightarrow>
     \<exists>info'. m' num = Some info' \<and> consistencyScore info' = consistencyScore info"
proof (induction xs arbitrary: m info)
  case Nil
  then show ?case by simp
next
  case (Cons x xs)
  from Cons.prems(1) obtain xi where xi: "m x = Some xi"
    and r: "push_appearance (m(x \<mapsto> xi\<lparr>appearances := appearances xi @ [idx]\<rparr>)) idx xs = Inr m'"
    by (auto split: option.splits)
  show ?case
  proof (cases "num = x")
    case True
    with xi Cons.prems(2) have "xi = info" by simp
    then have "(m(x \<mapsto> xi\<lparr>appearances := appearances xi @ [idx]\<rparr>)) num
        = Some (info\<lparr>appearances := appearances info @ [idx]\<rparr>)"
      using True by simp
    from Cons.IH [OF r this] show ?thesis by simp
  next
    case False
    then have "(m(x \<mapsto> xi\<lparr>appearances := appearances xi @ [idx]\<rparr>)) num = Some info"
      using Cons.prems(2) by simp
    from Cons.IH [OF r this] show ?thesis .
  qed
qed

lemma collect_appearances_Inr:
  "collect_appearances m idx ds = Inr m' \<Longrightarrow> m num = Some info \<Longrightarrow>
     \<exists>info'. m' num = Some info' \<and> consistencyScore info' = consistencyScore info"
proof (induction ds arbitrary: m idx info)
  case Nil
  then show ?case by simp
next
  case (Cons d ds)
  from Cons.prems(1) obtain m1 where p: "push_appearance m idx (uniqueNumbers d) = Inr m1"
    and r: "collect_appearances m1 (Suc idx) ds = Inr m'"
    by (auto split: sum.splits)
  from push_appearance_Inr [OF p Cons.prems(2)] obtain i1
    where i1: "m1 num = Some i1" "consistencyScore i1 = consistencyScore info" by blast
  from Cons.IH [OF r i1(1)] i1(2) show ?case by simp
qed

lemma getNumberCycleAnalysis_Inr:
  assumes "getNumberCycleAnalysis an = Inr cycleInfo" and "num \<in> set (allLottoNumbers an)"
  shows "\<exists>info. cycleInfo num = Some info \<and> consistencyScore info = 0"
proof -
  let ?init = "\<lambda>num. if num \<in> set (allLottoNumbers an) then Some initial_CycleInfo else None"
  from assms(1) obtain m0 where c: "collect_appearances ?init 0 (historyData an) = Inr m0"
    and f: "cycle_forEach (length (historyData an)) m0 (allLottoNumbers an) = Inr cycleInfo"
    by (auto simp: getNumberCycleAnalysis_def split: sum.splits)
  have "?init num = Some initial_CycleInfo" using assms(2) by simp
  from collect_appearances_Inr [OF c this] obtain i0
    where i0: "m0 num = Some i0" "consistencyScore i0 = 0"
    by (auto simp: initial_CycleInfo_def)
  from cycle_forEach_Inr [OF f i0(1)] i0(2) show ?thesis by auto
qed


lemma one_day_cycle_returns:
  "\<exists>cycleInfo. getNumberCycleAnalysis A7 = Inr cycleInfo"
proof -
  let ?init = "\<lambda>num. if num \<in> set ALL_LOTTO_NUMBERS then Some initial_CycleInfo else None"
  have m: "''07'' \<in> set ALL_LOTTO_NUMBERS" by (simp add: mem_universe DIGITS_def)
  have c: "collect_appearances ?init 0 [D7]
      = Inr (?init(''07'' \<mapsto> initial_CycleInfo\<lparr>appearances := [0]\<rparr>))"
    using m by (simp add: initial_CycleInfo_def)
  have "\<exists>m'. cycle_forEach 1 (?init(''07'' \<mapsto> initial_CycleInfo\<lparr>appearances := [0]\<rparr>))
      ALL_LOTTO_NUMBERS = Inr m'"
    by (rule cycle_forEach_returns) (auto simp: initial_CycleInfo_def split: if_splits)
  with c show ?thesis
    by (simp add: getNumberCycleAnalysis_def generateAllLottoNumbers_def)
qed

text \<open>
  With a single appearance a number has no gap: the guard \<open>info.appearances.length >= 2\<close>
  skips the statistics and the entry keeps the \<open>consistencyScore\<close> 0 it was
  initialised with.
\<close>

lemma getNumberCycleAnalysis_one_appearance:
  "prepared [D7]
   \<and> new_DataAnalyzer (Some [D7]) = Inr A7
   \<and> appearance_count [D7] ''07'' = 1
   \<and> reported_consistencyScore A7 ''07'' = Inr (Some 0)"
proof -
  have pr: "prepared [D7]"
    by (simp add: prepared_def Set_of_def Set_add_def mem_universe DIGITS_def)
  from one_day_cycle_returns obtain ci where ci: "getNumberCycleAnalysis A7 = Inr ci" by blast
  have "''07'' \<in> set (allLottoNumbers A7)"
    by (simp add: generateAllLottoNumbers_def mem_universe DIGITS_def)
  from getNumberCycleAnalysis_Inr [OF ci this] ci
  have "reported_consistencyScore A7 ''07'' = Inr (Some 0)"
    by (auto simp: reported_consistencyScore_def)
  with pr show ?thesis by (simp add: appearance_count_def new_DataAnalyzer_def)
qed

text \<open>
  With two appearances or more the entry's statistics call \<open>averageArray\<close> on a non-empty
  array: the query throws, for instance on two days that both hold \<open>"07"\<close>.
\<close>


lemma cycle_entry_long:
  "2 \<le> length (appearances info) \<Longrightarrow> cycle_entry cur info = Inl TypeError"
  by (cases "appearances info") (auto simp: cycle_entry_def Let_def averageArray_def cycle_gaps_def)

lemma cycle_forEach_throws:
  "k \<in> set keys \<Longrightarrow> m k = Some info \<Longrightarrow> 2 \<le> length (appearances info) \<Longrightarrow>
     cycle_forEach cur m keys = Inl TypeError"
proof (induction keys arbitrary: m)
  case Nil
  then show ?case by simp
next
  case (Cons x keys)
  show ?case
  proof (cases "m x")
    case None
    with Cons.prems have "k \<in> set keys" by auto
    then have "cycle_forEach cur m keys = Inl TypeError"
      using Cons.prems(2,3) by (rule Cons.IH)
    with None show ?thesis by simp
  next
    case (Some xi)
    show ?thesis
    proof (cases "2 \<le> length (appearances xi)")
      case True
      with Some show ?thesis by (simp add: cycle_entry_long)
    next
      case False
      then obtain xi' where e: "cycle_entry cur xi = Inr xi'"
        using cycle_entry_short [of xi cur] by auto
      from False Some Cons.prems have ne: "k \<noteq> x" by auto
      with Cons.prems have "k \<in> set keys" "(m(x \<mapsto> xi')) k = Some info" by auto
      then have "cycle_forEach cur (m(x \<mapsto> xi')) keys = Inl TypeError"
        using Cons.prems(3) by (rule Cons.IH)
      with Some e show ?thesis by simp
    qed
  qed
qed

lemma getNumberCycleAnalysis_two_days_throw:
  "getNumberCycleAnalysis \<lparr>historyData = [D7, D7], allLottoNumbers = generateAllLottoNumbers, currentDayIndex = 2\<rparr>
     = Inl TypeError"
proof -
  let ?init = "\<lambda>num. if num \<in> set ALL_LOTTO_NUMBERS then Some initial_CycleInfo else None"
  have m: "''07'' \<in> set ALL_LOTTO_NUMBERS" by (simp add: mem_universe DIGITS_def)
  have c: "collect_appearances ?init 0 [D7, D7]
      = Inr (?init(''07'' \<mapsto> initial_CycleInfo\<lparr>appearances := [0, 1]\<rparr>))"
    using m by (simp add: initial_CycleInfo_def)
  have t: "cycle_forEach (length [D7, D7])
      (?init(''07'' \<mapsto> initial_CycleInfo\<lparr>appearances := [0, 1]\<rparr>))
      ALL_LOTTO_NUMBERS = Inl TypeError"
    by (rule cycle_forEach_throws [OF m, where info = "initial_CycleInfo\<lparr>appearances := [0, 1]\<rparr>"])
      simp_all
  show ?thesis
    by (simp only: getNumberCycleAnalysis_def DataAnalyzer.select_convs
        generateAllLottoNumbers_def c t sum.case)
qed



text \<open>
  In general: the only exception of the query is this TypeError, and the query throws it
  on every history in which some number of the universe appears on two days or more.
\<close>

lemma push_appearance_error:
  "push_appearance m idx xs = Inl e \<Longrightarrow> e = TypeError"
  by (induction xs arbitrary: m) (auto split: option.splits)

lemma collect_appearances_error:
  "collect_appearances m idx ds = Inl e \<Longrightarrow> e = TypeError"
proof (induction ds arbitrary: m idx)
  case Nil
  then show ?case by simp
next
  case (Cons d ds)
  then show ?case
    by (auto split: sum.splits dest: push_appearance_error)
qed

lemma push_appearance_length:
  "push_appearance m idx xs = Inr m' \<Longrightarrow> m num = Some info \<Longrightarrow>
     \<exists>info'. m' num = Some info'
        \<and> length (appearances info) + (if num \<in> set xs then 1 else 0) \<le> length (appearances info')"
proof (induction xs arbitrary: m info)
  case Nil
  then show ?case by simp
next
  case (Cons x xs)
  from Cons.prems(1) obtain xi where xi: "m x = Some xi"
    and r: "push_appearance (m(x \<mapsto> xi\<lparr>appearances := appearances xi @ [idx]\<rparr>)) idx xs = Inr m'"
    by (auto split: option.splits)
  show ?case
  proof (cases "num = x")
    case True
    with xi Cons.prems(2) have "xi = info" by simp
    then have "(m(x \<mapsto> xi\<lparr>appearances := appearances xi @ [idx]\<rparr>)) num
        = Some (info\<lparr>appearances := appearances info @ [idx]\<rparr>)"
      using True by simp
    from Cons.IH [OF r this] True show ?thesis by (auto split: if_splits)
  next
    case False
    then have "(m(x \<mapsto> xi\<lparr>appearances := appearances xi @ [idx]\<rparr>)) num = Some info"
      using Cons.prems(2) by simp
    from Cons.IH [OF r this] False show ?thesis by (auto split: if_splits)
  qed
qed

lemma collect_appearances_length:
  "collect_appearances m idx ds = Inr m' \<Longrightarrow> m num = Some info \<Longrightarrow>
     \<exists>info'. m' num = Some info'
        \<and> length (appearances info) + appearance_count ds num \<le> length (appearances info')"
proof (induction ds arbitrary: m idx info)
  case Nil
  then show ?case by (simp add: appearance_count_def)
next
  case (Cons d ds)
  from Cons.prems(1) obtain m1 where p: "push_appearance m idx (uniqueNumbers d) = Inr m1"
    and r: "collect_appearances m1 (Suc idx) ds = Inr m'"
    by (auto split: sum.splits)
  from push_appearance_length [OF p Cons.prems(2)] obtain i1
    where i1: "m1 num = Some i1"
      "length (appearances info) + (if num \<in> set (uniqueNumbers d) then 1 else 0)
         \<le> length (appearances i1)" by blast
  from Cons.IH [OF r i1(1)] obtain info' where
    "m' num = Some info'" "length (appearances i1) + appearance_count ds num \<le> length (appearances info')"
    by blast
  with i1(2) show ?case by (auto simp: appearance_count_def split: if_splits)
qed

lemma getNumberCycleAnalysis_throws_twice:
  assumes "num \<in> set (allLottoNumbers an)" and "2 \<le> appearance_count (historyData an) num"
  shows "getNumberCycleAnalysis an = Inl TypeError"
proof -
  let ?init = "\<lambda>num. if num \<in> set (allLottoNumbers an) then Some initial_CycleInfo else None"
  show ?thesis
  proof (cases "collect_appearances ?init 0 (historyData an)")
    case (Inl e)
    then have "e = TypeError" by (rule collect_appearances_error)
    with Inl show ?thesis by (simp add: getNumberCycleAnalysis_def)
  next
    case (Inr m0)
    have "?init num = Some initial_CycleInfo" using assms(1) by simp
    from collect_appearances_length [OF Inr this] obtain info
      where i: "m0 num = Some info" "2 \<le> length (appearances info)"
      using assms(2) by (auto simp: initial_CycleInfo_def)
    have "cycle_forEach (length (historyData an)) m0 (allLottoNumbers an) = Inl TypeError"
      using assms(1) i by (rule cycle_forEach_throws)
    with Inr show ?thesis by (simp add: getNumberCycleAnalysis_def)
  qed
qed

lemma three_days_prepared: "prepared [D7, D7, D7]"
  by (simp add: prepared_def Set_of_def Set_add_def mem_universe DIGITS_def)

text \<open>
  C8. On the history of three days that each hold \<open>"07"\<close>, the number \<open>"07"\<close> has the
  appearances 0, 1, 2 and the gaps 1 and 1, whose standard deviation is 0, so that its
  consistency score is 1 by the formula. \<open>getNumberCycleAnalysis\<close> does not report it:
  the call of \<open>averageArray\<close> on the gaps throws a TypeError, which leaves the whole
  query, and no number gets a score.
\<close>

theorem getNumberCycleAnalysis_throws:
  "new_DataAnalyzer (Some [D7, D7, D7])
     = Inr \<lparr>historyData = [D7, D7, D7], allLottoNumbers = generateAllLottoNumbers,
            currentDayIndex = 3\<rparr>
   \<and> appearance_count [D7, D7, D7] ''07'' = 3
   \<and> cycle_gaps [0, 1, 2] = [1, 1]
   \<and> getNumberCycleAnalysis
        \<lparr>historyData = [D7, D7, D7], allLottoNumbers = generateAllLottoNumbers,
         currentDayIndex = 3\<rparr> = Inl TypeError
   \<and> reported_consistencyScore
        \<lparr>historyData = [D7, D7, D7], allLottoNumbers = generateAllLottoNumbers,
         currentDayIndex = 3\<rparr> ''07'' = Inl TypeError"
proof -
  let ?an = "\<lparr>historyData = [D7, D7, D7], allLottoNumbers = generateAllLottoNumbers,
         currentDayIndex = 3\<rparr>"
  let ?init = "\<lambda>num. if num \<in> set ALL_LOTTO_NUMBERS then Some initial_CycleInfo else None"
  have m: "''07'' \<in> set ALL_LOTTO_NUMBERS" by (simp add: mem_universe DIGITS_def)
  have c: "collect_appearances ?init 0 [D7, D7, D7]
      = Inr (?init(''07'' \<mapsto> initial_CycleInfo\<lparr>appearances := [0, 1, 2]\<rparr>))"
    using m by (simp add: initial_CycleInfo_def numeral_2_eq_2)
  have t: "cycle_forEach (length [D7, D7, D7])
      (?init(''07'' \<mapsto> initial_CycleInfo\<lparr>appearances := [0, 1, 2]\<rparr>))
      ALL_LOTTO_NUMBERS = Inl TypeError"
    by (rule cycle_forEach_throws [OF m, where info = "initial_CycleInfo\<lparr>appearances := [0, 1, 2]\<rparr>"])
      simp_all
  have g: "getNumberCycleAnalysis ?an = Inl TypeError"
    by (simp only: getNumberCycleAnalysis_def DataAnalyzer.select_convs
        generateAllLottoNumbers_def c t sum.case)
  have a: "new_DataAnalyzer (Some [D7, D7, D7]) = Inr ?an"
    by (simp add: new_DataAnalyzer_def)
  have n: "appearance_count [D7, D7, D7] ''07'' = 3"
    by (simp add: appearance_count_def)
  have gaps: "cycle_gaps [0, 1, 2] = [1, 1]"
    by (simp add: cycle_gaps_def upt_conv_Cons)
  have r: "reported_consistencyScore ?an ''07'' = Inl TypeError"
    by (simp only: reported_consistencyScore_def g sum.case)
  from a n gaps g r show ?thesis by (intro conjI)
qed


subsection \<open>The prediction engine\<close>

lemma scan_brackets_append:
  "scan_brackets pending (a @ b)
     = (case scan_brackets pending a of None \<Rightarrow> None | Some q \<Rightarrow> scan_brackets q b)"
  by (induction a arbitrary: pending) (auto split: option.splits list.splits)

lemma line_248_mismatch: "scan_brackets pending line_248 = None"
  by (simp add: line_248_def closing_def is_closing_def)

lemma line_248_not_well_bracketed: "\<not> well_bracketed (before @ line_248 @ after)"
  by (simp add: well_bracketed_def scan_brackets_append line_248_mismatch split: option.splits)

lemma importScripts_prediction_engine_undefined:
  "importScripts_prediction_engine before after built = None"
  by (simp add: importScripts_prediction_engine_def line_248_not_well_bracketed)

lemma call_predictNextDay_undefined:
  "call_predictNextDay (importScripts_prediction_engine before after built) historyArg
     = Inl TypeError"
  by (simp add: call_predictNextDay_def importScripts_prediction_engine_undefined)

lemma long_history_prepared: "prepared (replicate n D7)"
  by (simp add: prepared_def Set_of_def Set_add_def mem_universe DIGITS_def)

text \<open>
  C1. On the prepared history of 200 days that each hold \<open>"07"\<close>, the call of
  \<open>PredictionEngine.predictNextDay\<close> returns no numbers: the script that should define
  the function does not load, whatever surrounds its line 248 and whatever its statements
  would build, and the call throws a TypeError.
\<close>

theorem predictNextDay_not_defined:
  "length (replicate 200 D7) = MIN_HISTORY_FOR_ANALYSIS
   \<and> call_predictNextDay (importScripts_prediction_engine before after built)
        (Some (replicate 200 D7)) = Inl TypeError"
  by (simp add: call_predictNextDay_undefined MIN_HISTORY_FOR_ANALYSIS_def)


text \<open>
  C3. On the empty history, and on an absent one, the call does not fail with the
  insufficient-data error that names the minimum of 200 days but with a TypeError; and on a
  history of exactly 200 days it fails as well.
\<close>

theorem predictNextDay_empty_history:
  "call_predictNextDay (importScripts_prediction_engine before after built) (Some [])
     = Inl TypeError
   \<and> call_predictNextDay (importScripts_prediction_engine before after built) None
     = Inl TypeError
   \<and> call_predictNextDay (importScripts_prediction_engine before after built) (Some [])
     \<noteq> Inl (InsufficientData MIN_HISTORY_FOR_ANALYSIS)
   \<and> call_predictNextDay (importScripts_prediction_engine before after built)
        (Some (replicate MIN_HISTORY_FOR_ANALYSIS D7)) = Inl TypeError"
  by (simp add: call_predictNextDay_undefined)

subsection \<open>Backtesting\<close>




lemma runBacktest_short_window:
  assumes "MIN_HISTORY_FOR_ANALYSIS + 1 \<le> length h"
    and "length h < MIN_HISTORY_FOR_ANALYSIS + BACKTEST_WINDOW_SIZE"
  shows "runBacktest engine h = Inl ReferenceError"
  using assms by (simp add: runBacktest_def Let_def)

text \<open>
  C5 (the part about histories shorter than 200 + 150 days). On a history of 201 days, which
  has one testable day, \<open>runBacktest\<close> tests no day: it throws the ReferenceError, whatever
  the engine and the days are.
\<close>

theorem runBacktest_short_history_throws:
  "runBacktest engine (replicate 201 d) = Inl ReferenceError"
  by (rule runBacktest_short_window)
    (simp_all add: MIN_HISTORY_FOR_ANALYSIS_def BACKTEST_WINDOW_SIZE_def)

lemma runBacktest_full_window:
  assumes "MIN_HISTORY_FOR_ANALYSIS + BACKTEST_WINDOW_SIZE \<le> length h"
  shows "runBacktest engine h
     = (case strategyInfluenceTracker engine of
          Inl e \<Rightarrow> Inl e
        | Inr tracker \<Rightarrow>
            Inr ((backtest_loop engine h (length h - BACKTEST_WINDOW_SIZE) (length h - 1)
                    initialStats)\<lparr>strategyPerformance := tracker\<rparr>))"
proof -
  have "nat (int (length h) - 1 - int BACKTEST_WINDOW_SIZE + 1) = length h - BACKTEST_WINDOW_SIZE"
    using assms by linarith
  moreover have "nat (int (length h) - 1) = length h - 1" by linarith
  moreover have "\<not> length h < MIN_HISTORY_FOR_ANALYSIS + 1"
    using assms by (simp add: BACKTEST_WINDOW_SIZE_def)
  moreover have "\<not> int (length h) - 1 - int BACKTEST_WINDOW_SIZE + 1 < int MIN_HISTORY_FOR_ANALYSIS"
    using assms by linarith
  ultimately show ?thesis
    by (simp add: runBacktest_def Let_def split: sum.splits)
qed

text \<open>
  With an undefined engine, as left by \<open>importScripts_prediction_engine\<close>, a backtest over
  a full window stops at the tracker, before the first day.
\<close>

lemma runBacktest_engine_undefined:
  assumes "MIN_HISTORY_FOR_ANALYSIS + BACKTEST_WINDOW_SIZE \<le> length h"
  shows "runBacktest (importScripts_prediction_engine before after built) h = Inl TypeError"
  using runBacktest_full_window [OF assms]
  by (simp add: importScripts_prediction_engine_undefined strategyInfluenceTracker_def)






end
